theory Spec2Isabelle
  imports Complex_Main "HOL-Library.Sublist"
begin

section \<open>Text and paths\<close>

text \<open>
  Python strings are modelled as HOL strings, one \<^typ>\<open>char\<close> per code point below 256.
  On these code points \<open>str.lower\<close> moves the capital letters \<open>A\<close> to \<open>Z\<close> and the
  capital letters of the Latin-1 block (\<open>0xC0\<close> to \<open>0xDE\<close>, the multiplication sign
  \<open>0xD7\<close> apart) 32 places up and leaves every other code point alone.
\<close>

definition is_upper_char :: "char \<Rightarrow> bool" where
  "is_upper_char c =
     (let n = (of_char c :: nat) in
      (65 \<le> n \<and> n \<le> 90) \<or> (192 \<le> n \<and> n \<le> 214) \<or> (216 \<le> n \<and> n \<le> 222))"

text \<open>
  Every capital has bit 5 (the value 32) clear, so adding 32 is setting that bit.
\<close>

definition lower_char :: "char \<Rightarrow> char" where
  "lower_char c =
     (if is_upper_char c
      then (case c of Char b0 b1 b2 b3 b4 b5 b6 b7 \<Rightarrow> Char b0 b1 b2 b3 b4 True b6 b7)
      else c)"

definition lower :: "string \<Rightarrow> string" where
  "lower s = map lower_char s"

text \<open>
  \<open>str.rfind\<close>: the index of the last occurrence of a character, \<open>-1\<close> when there is
  none.
\<close>

fun rfind :: "string \<Rightarrow> char \<Rightarrow> int" where
  "rfind [] c = - 1"
| "rfind (x # xs) c =
     (let r = rfind xs c in
      if 0 \<le> r then r + 1 else if x = c then 0 else - 1)"

text \<open>\<open>str.split(sep)\<close> for a one-character separator: never an empty list.\<close>

fun split_on :: "char \<Rightarrow> string \<Rightarrow> string list" where
  "split_on c [] = [[]]"
| "split_on c (x # xs) =
     (if x = c then [] # split_on c xs
      else (let r = split_on c xs in (x # hd r) # tl r))"

text \<open>\<open>sep.join(parts)\<close>.\<close>

fun join :: "string \<Rightarrow> string list \<Rightarrow> string" where
  "join sep [] = []"
| "join sep [p] = p"
| "join sep (p # q # ps) = p @ sep @ join sep (q # ps)"

text \<open>
  A \<open>pathlib.Path\<close> of the POSIX flavour, as CPython parses it (through Python 3.13):
  the root (\<open>''''\<close>, \<open>''/''\<close>, or \<open>''//''\<close> for precisely two leading slashes) and the
  components between slashes, the empty ones and \<open>''.''\<close> dropped.
\<close>

record path =
  root :: string
  tail :: "string list"

definition splitroot :: "string \<Rightarrow> string \<times> string" where
  "splitroot p =
     (if take 1 p \<noteq> ''/'' then ('''', p)
      else if take 1 (drop 1 p) \<noteq> ''/'' \<or> take 1 (drop 2 p) = ''/'' then (''/'', drop 1 p)
      else (take 2 p, drop 2 p))"

definition Path :: "string \<Rightarrow> path" where
  "Path data_path =
     (if data_path = [] then \<lparr>root = [], tail = []\<rparr>
      else (let (rt, rel) = splitroot data_path in
            \<lparr>root = rt, tail = filter (\<lambda>x. x \<noteq> [] \<and> x \<noteq> ''.'') (split_on CHR ''/'' rel)\<rparr>))"

text \<open>\<open>str(path)\<close>: the root and the components joined by slashes, \<open>''.''\<close> for the empty path.\<close>

definition str_path :: "path \<Rightarrow> string" where
  "str_path p =
     (let s = root p @ join ''/'' (tail p) in if s = [] then ''.'' else s)"

text \<open>\<open>path.name\<close>: the final component, empty when there is none.\<close>

definition path_name :: "path \<Rightarrow> string" where
  "path_name p = (if tail p = [] then [] else last (tail p))"

text \<open>
  \<open>path.suffix\<close>: the final component from its last dot on, when that dot is neither its
  first nor its last character; empty otherwise.
\<close>

definition path_suffix :: "path \<Rightarrow> string" where
  "path_suffix p =
     (let name = path_name p; i = rfind name CHR ''.'' in
      if 0 < i \<and> i < int (length name) - 1 then drop (nat i) name else [])"

section \<open>The type dispatcher\<close>

text \<open>The two extension sets of \<open>_is_raster\<close> and \<open>_is_vector\<close>.\<close>

definition raster_exts :: "string list" where
  "raster_exts = [''.tif'', ''.tiff'', ''.geotiff'']"

definition vector_exts :: "string list" where
  "vector_exts = [''.shp'', ''.geojson'', ''.json'', ''.gpkg'', ''.fgb'']"

definition is_raster :: "path \<Rightarrow> bool" where
  "is_raster p = (lower (path_suffix p) \<in> set raster_exts)"

definition is_vector :: "path \<Rightarrow> bool" where
  "is_vector p = (lower (path_suffix p) \<in> set vector_exts)"

section \<open>The libraries, as the function sees them\<close>

text \<open>
  The function works through geopandas, rasterio, contextily and matplotlib. Their objects
  are modelled by the attributes the function reads or sets, and what a library call
  answers (the content of a file, reprojected coordinates, whether the call raises) is
  given by a \<open>world\<close>, fixed over a call of the function.
\<close>

datatype crs = EPSG nat | Crs_text string

text \<open>A bounding box: \<open>(minx, miny, maxx, maxy)\<close>, also read \<open>(left, bottom, right, top)\<close>.\<close>

type_synonym bbox = "real \<times> real \<times> real \<times> real"

text \<open>Indexing a four-tuple: \<open>b[0]\<close>, \<open>b[1]\<close>, \<open>b[2]\<close>, \<open>b[3]\<close>.\<close>

definition item0 :: "bbox \<Rightarrow> real" where
  "item0 b = fst b"

definition item1 :: "bbox \<Rightarrow> real" where
  "item1 b = fst (snd b)"

definition item2 :: "bbox \<Rightarrow> real" where
  "item2 b = fst (snd (snd b))"

definition item3 :: "bbox \<Rightarrow> real" where
  "item3 b = snd (snd (snd b))"

type_synonym kwargs = "(string \<times> string) list"

text \<open>
  What contextily is asked for when tiles are added to an axes: the tile source, the
  reference system and the view of the axes, \<open>(xlim, ylim)\<close>.
\<close>

type_synonym tile_request = "string \<times> crs option \<times> (real \<times> real) \<times> (real \<times> real)"

record geodataframe =
  crs :: "crs option"
  geometry :: "(real \<times> real) list list"
  total_bounds :: bbox

text \<open>
  An open rasterio dataset: the handle, the name it was opened under and the attributes it
  exposes.
\<close>

record dataset =
  handle :: nat
  ds_name :: string
  ds_crs :: "crs option"
  bounds :: bbox
  pixels :: "nat list list"

datatype artist =
    Vector_layer geodataframe kwargs
  | Raster_image "nat list list" "crs option" kwargs
  | Basemap_tiles "crs option" string bool

record axes =
  xlim :: "real \<times> real"
  ylim :: "real \<times> real"
  xlabel :: string
  ylabel :: string
  zorder :: int
  patch_alpha :: "real option"
  frameon :: bool
  position :: bbox
  artists :: "artist list"

text \<open>A figure owns its axes, in the order they were added; an axes is named by its index.\<close>

record figure =
  fig_size :: "int \<times> int"
  fig_axes :: "axes list"

text \<open>What a library raises: the kind of the exception and its message.\<close>

datatype exc = Exc string string

text \<open>
  The library calls that read files, fetch tiles, transform coordinates or may raise, each
  with the arguments it is given (a dataset by its name). \<open>Fetch_tiles\<close> is the download
  \<open>add_basemap\<close> makes when the tiles it needs are not in contextily's cache.
\<close>

datatype lib_call =
    Read_file string
  | To_crs "crs option" nat
  | Subplots "int \<times> int"
  | Gdf_plot kwargs
  | Add_basemap "crs option" string bool
  | Fetch_tiles tile_request
  | Set_xlim real real
  | Set_ylim real real
  | Rasterio_open string
  | Show_raster string kwargs
  | Transform_bounds "crs option" string bbox
  | Close string

text \<open>
  The world: which paths are on the file system, what the \<open>stat\<close> call behind
  \<open>path.exists()\<close> raises (an \<open>OSError\<close> other than the not-found kinds, such as a name
  that is too long or a directory that may not be searched), what each library call raises,
  and what the calls that return data return.
\<close>

record world =
  on_disk :: "string \<Rightarrow> bool"
  stat_fails :: "string \<Rightarrow> exc option"
  lib_fails :: "lib_call \<Rightarrow> exc option"
  read_file_result :: "string \<Rightarrow> geodataframe"
  to_crs_result :: "geodataframe \<Rightarrow> nat \<Rightarrow> (real \<times> real) list list \<times> bbox"
  rasterio_open_result :: "string \<Rightarrow> crs option \<times> bbox \<times> nat list list"
  transform_bounds_result :: "crs option \<Rightarrow> string \<Rightarrow> bbox \<Rightarrow> bbox"
  autoscale_result :: "artist \<Rightarrow> (real \<times> real) \<times> (real \<times> real)"

text \<open>
  What outlives a call: the library calls made so far, in order, the raster handles that
  are open, and contextily's tile cache, as the requests whose tiles it holds.
\<close>

record state =
  calls :: "lib_call list"
  open_handles :: "nat list"
  next_handle :: nat
  tile_cache :: "tile_request list"

text \<open>
  The errors of \<open>show_on_basemap\<close>: the two it raises itself, and an exception of a
  library (the standard library included), carried as the library raised it.
\<close>

datatype error =
    FileNotFoundError string
  | ValueError string
  | Raised_by_library exc

type_synonym 'a run = "state \<Rightarrow> (error + 'a) \<times> state"

definition return_m :: "'a \<Rightarrow> 'a run" where
  "return_m a s = (Inr a, s)"

definition raise_m :: "error \<Rightarrow> 'a run" where
  "raise_m e s = (Inl e, s)"

text \<open>Sequencing: an exception ends the computation where it is raised, the state kept.\<close>

definition bind_m :: "'a run \<Rightarrow> ('a \<Rightarrow> 'b run) \<Rightarrow> 'b run" where
  "bind_m m f s = (case m s of (Inl e, s') \<Rightarrow> (Inl e, s') | (Inr a, s') \<Rightarrow> f a s')"

text \<open>A library call is recorded, then raises what the world says it raises, if anything.\<close>

definition lib :: "world \<Rightarrow> lib_call \<Rightarrow> unit run" where
  "lib w c s =
     (let s' = s\<lparr>calls := calls s @ [c]\<rparr> in
      case lib_fails w c of
        Some x \<Rightarrow> (Inl (Raised_by_library x), s')
      | None \<Rightarrow> (Inr (), s'))"

subsection \<open>pathlib\<close>

text \<open>
  \<open>path.exists()\<close>: it raises what \<open>stat\<close> raises, the not-found kinds apart, and
  otherwise says whether the path is there. It is no call of a geospatial library and is not
  recorded.
\<close>

definition path_exists :: "world \<Rightarrow> path \<Rightarrow> bool run" where
  "path_exists w p s =
     (case stat_fails w (str_path p) of
        Some x \<Rightarrow> (Inl (Raised_by_library x), s)
      | None \<Rightarrow> (Inr (on_disk w (str_path p)), s))"

text \<open>\<open>path.exists()\<close> returns \<open>True\<close>.\<close>

definition fs_exists :: "world \<Rightarrow> string \<Rightarrow> bool" where
  "fs_exists w p = (stat_fails w p = None \<and> on_disk w p)"

subsection \<open>geopandas\<close>

definition read_file :: "world \<Rightarrow> path \<Rightarrow> geodataframe run" where
  "read_file w p =
     bind_m (lib w (Read_file (str_path p)))
       (\<lambda>_. return_m (read_file_result w (str_path p)))"

text \<open>\<open>gdf.set_crs(epsg=n)\<close> on a frame that has no reference system: a copy that has it.\<close>

definition set_crs :: "geodataframe \<Rightarrow> nat \<Rightarrow> geodataframe" where
  "set_crs gdf n = gdf\<lparr>crs := Some (EPSG n)\<rparr>"

text \<open>\<open>gdf.to_crs(epsg=n)\<close>: the transformed coordinates, in the reference system asked for.\<close>

definition to_crs :: "world \<Rightarrow> geodataframe \<Rightarrow> nat \<Rightarrow> geodataframe run" where
  "to_crs w gdf n =
     bind_m (lib w (To_crs (crs gdf) n))
       (\<lambda>_. return_m
          \<lparr>crs = Some (EPSG n),
           geometry = fst (to_crs_result w gdf n),
           total_bounds = snd (to_crs_result w gdf n)\<rparr>)"

subsection \<open>matplotlib and contextily\<close>

text \<open>A new axes, with matplotlib's defaults.\<close>

definition new_axes :: axes where
  "new_axes =
     \<lparr>xlim = (0, 1), ylim = (0, 1), xlabel = [], ylabel = [], zorder = 0,
      patch_alpha = None, frameon = True, position = (0.125, 0.11, 0.775, 0.77),
      artists = []\<rparr>"

definition update_axes :: "figure \<Rightarrow> nat \<Rightarrow> (axes \<Rightarrow> axes) \<Rightarrow> figure" where
  "update_axes fig ax f = fig\<lparr>fig_axes := (fig_axes fig)[ax := f (fig_axes fig ! ax)]\<rparr>"

text \<open>\<open>plt.subplots(figsize=figsize)\<close>: a new figure and its one axes.\<close>

definition subplots :: "world \<Rightarrow> int \<times> int \<Rightarrow> (figure \<times> nat) run" where
  "subplots w figsize =
     bind_m (lib w (Subplots figsize))
       (\<lambda>_. return_m (\<lparr>fig_size = figsize, fig_axes = [new_axes]\<rparr>, 0))"

text \<open>Drawing data into an axes adds the artist and rescales the view to the data.\<close>

definition draw_into :: "world \<Rightarrow> artist \<Rightarrow> axes \<Rightarrow> axes" where
  "draw_into w a x =
     x\<lparr>artists := artists x @ [a],
       xlim := fst (autoscale_result w a),
       ylim := snd (autoscale_result w a)\<rparr>"

text \<open>\<open>gdf.plot(ax=ax, **layer_kwargs)\<close>.\<close>

definition gdf_plot :: "world \<Rightarrow> geodataframe \<Rightarrow> figure \<Rightarrow> nat \<Rightarrow> kwargs \<Rightarrow> figure run" where
  "gdf_plot w gdf fig ax kw =
     bind_m (lib w (Gdf_plot kw))
       (\<lambda>_. return_m (update_axes fig ax (draw_into w (Vector_layer gdf kw))))"

text \<open>
  The tiles of a request: taken from the cache when an earlier call has left them there,
  downloaded otherwise, and then kept in the cache.
\<close>

definition fetch_tiles :: "world \<Rightarrow> tile_request \<Rightarrow> unit run" where
  "fetch_tiles w req s =
     (if req \<in> set (tile_cache s) then (Inr (), s)
      else bind_m (lib w (Fetch_tiles req))
             (\<lambda>_ t. (Inr (), t\<lparr>tile_cache := tile_cache t @ [req]\<rparr>)) s)"

text \<open>
  \<open>cx.add_basemap(ax, crs=..., source=..., attribution=...)\<close>: the tiles for the view of
  the axes are fetched and drawn into it; the view is left as it was.
\<close>

definition add_basemap ::
  "world \<Rightarrow> figure \<Rightarrow> nat \<Rightarrow> crs option \<Rightarrow> string \<Rightarrow> bool \<Rightarrow> figure run" where
  "add_basemap w fig ax c source attribution =
     bind_m (lib w (Add_basemap c source attribution)) (\<lambda>_.
     bind_m (fetch_tiles w
               (source, c, xlim (fig_axes fig ! ax), ylim (fig_axes fig ! ax))) (\<lambda>_.
     return_m
       (update_axes fig ax
          (\<lambda>x. x\<lparr>artists := artists x @ [Basemap_tiles c source attribution]\<rparr>))))"

text \<open>
  matplotlib does not keep an interval of zero width: limits that are equal are moved apart
  by a twentieth of their magnitude on each side, to \<open>(-0.05, 0.05)\<close> when they are zero.
  (It treats likewise an interval narrower than the precision of a float, which the real
  numbers of this model do not have.)
\<close>

definition nonsingular :: "real \<Rightarrow> real \<Rightarrow> real \<times> real" where
  "nonsingular vmin vmax =
     (if vmin = vmax
      then (if vmin = 0 then (- 0.05, 0.05)
            else (vmin - 0.05 * \<bar>vmin\<bar>, vmax + 0.05 * \<bar>vmax\<bar>))
      else (vmin, vmax))"

text \<open>
  \<open>ax.set_xlim(l, r)\<close> and \<open>ax.set_ylim(b, t)\<close>: the view limits become the two
  arguments, made non-singular. Whether the call raises (it does on a limit that is not a
  number) is for the world to say, as for any library call.
\<close>

definition set_xlim :: "world \<Rightarrow> figure \<Rightarrow> nat \<Rightarrow> real \<Rightarrow> real \<Rightarrow> figure run" where
  "set_xlim w fig ax l r =
     bind_m (lib w (Set_xlim l r))
       (\<lambda>_. return_m (update_axes fig ax (\<lambda>x. x\<lparr>xlim := nonsingular l r\<rparr>)))"

definition set_ylim :: "world \<Rightarrow> figure \<Rightarrow> nat \<Rightarrow> real \<Rightarrow> real \<Rightarrow> figure run" where
  "set_ylim w fig ax b t =
     bind_m (lib w (Set_ylim b t))
       (\<lambda>_. return_m (update_axes fig ax (\<lambda>x. x\<lparr>ylim := nonsingular b t\<rparr>)))"

text \<open>\<open>fig.add_axes(rect, frameon=...)\<close>: the new axes is the last of the figure.\<close>

definition add_axes :: "figure \<Rightarrow> bbox \<Rightarrow> bool \<Rightarrow> figure \<times> nat" where
  "add_axes fig rect frame =
     (fig\<lparr>fig_axes := fig_axes fig @ [new_axes\<lparr>position := rect, frameon := frame\<rparr>]\<rparr>,
      length (fig_axes fig))"

text \<open>
  The order in which a figure draws its axes: by \<open>zorder\<close>, lowest first, axes of equal
  \<open>zorder\<close> in the order they were added. What is drawn later lies on top.
\<close>

definition draw_order :: "figure \<Rightarrow> nat list" where
  "draw_order fig = sort_key (\<lambda>i. zorder (fig_axes fig ! i)) [0..<length (fig_axes fig)]"

subsection \<open>rasterio\<close>

text \<open>\<open>rasterio.open(path)\<close>: a new handle, open from here on.\<close>

definition rasterio_open :: "world \<Rightarrow> path \<Rightarrow> dataset run" where
  "rasterio_open w p =
     bind_m (lib w (Rasterio_open (str_path p)))
       (\<lambda>_ s.
          (case rasterio_open_result w (str_path p) of
             (c, b, px) \<Rightarrow>
               (Inr \<lparr>handle = next_handle s, ds_name = str_path p, ds_crs = c, bounds = b,
                     pixels = px\<rparr>,
                s\<lparr>open_handles := open_handles s @ [next_handle s],
                  next_handle := Suc (next_handle s)\<rparr>)))"

text \<open>\<open>show(src, ax=ax, **layer_kwargs)\<close>: the pixels as they are, in the raster's own system.\<close>

definition show_raster :: "world \<Rightarrow> dataset \<Rightarrow> figure \<Rightarrow> nat \<Rightarrow> kwargs \<Rightarrow> figure run" where
  "show_raster w src fig ax kw =
     bind_m (lib w (Show_raster (ds_name src) kw))
       (\<lambda>_. return_m
          (update_axes fig ax (draw_into w (Raster_image (pixels src) (ds_crs src) kw))))"

definition transform_bounds ::
  "world \<Rightarrow> crs option \<Rightarrow> string \<Rightarrow> real \<Rightarrow> real \<Rightarrow> real \<Rightarrow> real \<Rightarrow> bbox run" where
  "transform_bounds w src_crs dst_crs left bottom right top' =
     bind_m (lib w (Transform_bounds src_crs dst_crs (left, bottom, right, top')))
       (\<lambda>_. return_m (transform_bounds_result w src_crs dst_crs (left, bottom, right, top')))"

text \<open>\<open>src.close()\<close>.\<close>

definition close :: "dataset \<Rightarrow> unit run" where
  "close src s =
     (Inr (), s\<lparr>calls := calls s @ [Close (ds_name src)],
               open_handles := removeAll (handle src) (open_handles s)\<rparr>)"

section \<open>The loaders\<close>

text \<open>\<open>_load_vector\<close>.\<close>

definition load_vector :: "world \<Rightarrow> path \<Rightarrow> geodataframe run" where
  "load_vector w p =
     bind_m (read_file w p)
       (\<lambda>gdf. let gdf = (if crs gdf = None then set_crs gdf 4326 else gdf)
              in to_crs w gdf 3857)"

text \<open>\<open>_load_raster\<close>: the open dataset, nothing reprojected.\<close>

definition load_raster :: "world \<Rightarrow> path \<Rightarrow> dataset run" where
  "load_raster w p = rasterio_open w p"

section \<open>\<open>show_on_basemap\<close>\<close>

text \<open>The tile source \<open>cx.providers.OpenStreetMap.Mapnik\<close>.\<close>

definition Mapnik :: string where
  "Mapnik = ''OpenStreetMap.Mapnik''"

text \<open>The branch of a vector file (lines 104 to 128).\<close>

definition vector_branch ::
  "world \<Rightarrow> path \<Rightarrow> kwargs \<Rightarrow> int \<times> int \<Rightarrow> bool \<Rightarrow> (figure \<times> nat) run" where
  "vector_branch w p layer_kwargs figsize add_attribution =
     bind_m (load_vector w p) (\<lambda>gdf.
     bind_m (subplots w figsize) (\<lambda>(fig, ax).
     bind_m (gdf_plot w gdf fig ax layer_kwargs) (\<lambda>fig.
     bind_m (add_basemap w fig ax (crs gdf) Mapnik add_attribution) (\<lambda>fig.
     bind_m (set_xlim w fig ax (item0 (total_bounds gdf)) (item2 (total_bounds gdf))) (\<lambda>fig.
     bind_m (set_ylim w fig ax (item1 (total_bounds gdf)) (item3 (total_bounds gdf))) (\<lambda>fig.
     (let fig = update_axes fig ax (\<lambda>x. x\<lparr>xlabel := ''Web Mercator X (meters)''\<rparr>);
          fig = update_axes fig ax (\<lambda>x. x\<lparr>ylabel := ''Web Mercator Y (meters)''\<rparr>)
      in return_m (fig, ax))))))))"

text \<open>The branch of a raster file (lines 130 to 170).\<close>

definition raster_branch ::
  "world \<Rightarrow> path \<Rightarrow> kwargs \<Rightarrow> int \<times> int \<Rightarrow> bool \<Rightarrow> (figure \<times> nat) run" where
  "raster_branch w p layer_kwargs figsize add_attribution =
     bind_m (load_raster w p) (\<lambda>src.
     bind_m (subplots w figsize) (\<lambda>(fig, ax).
     bind_m (show_raster w src fig ax layer_kwargs) (\<lambda>fig.
     (let raster_crs = ds_crs src in
      (case bounds src of (left, bottom, right, top') \<Rightarrow>
     bind_m (transform_bounds w raster_crs ''EPSG: 3857'' left bottom right top') (\<lambda>b3857.
     (case add_axes fig (position (fig_axes fig ! ax)) False of (fig, ax_basemap) \<Rightarrow>
     bind_m (set_xlim w fig ax_basemap (item0 b3857) (item2 b3857)) (\<lambda>fig.
     bind_m (set_ylim w fig ax_basemap (item1 b3857) (item3 b3857)) (\<lambda>fig.
     bind_m (add_basemap w fig ax_basemap (Some (Crs_text ''EPSG: 3857'')) Mapnik
               add_attribution) (\<lambda>fig.
     (let fig = update_axes fig ax (\<lambda>x. x\<lparr>zorder := 2\<rparr>);
          fig = update_axes fig ax (\<lambda>x. x\<lparr>patch_alpha := Some 0\<rparr>)
      in bind_m (close src) (\<lambda>_. return_m (fig, ax)))))))))))))"

text \<open>
  \<open>show_on_basemap(data_path, layer_kwargs, figsize, add_attribution)\<close>; \<open>layer_kwargs\<close>
  is \<open>None\<close> when the caller leaves it out.
\<close>

definition show_on_basemap ::
  "world \<Rightarrow> string \<Rightarrow> kwargs option \<Rightarrow> int \<times> int \<Rightarrow> bool \<Rightarrow> (figure \<times> nat) run" where
  "show_on_basemap w data_path layer_kwargs figsize add_attribution =
     (let p = Path data_path in
      bind_m (path_exists w p) (\<lambda>found.
      if \<not> found
      then raise_m (FileNotFoundError (''Could not find '' @ str_path p @ ''.''))
      else
        (let layer_kwargs = (case layer_kwargs of None \<Rightarrow> [] | Some kw \<Rightarrow> kw) in
         if is_vector p then vector_branch w p layer_kwargs figsize add_attribution
         else if is_raster p then raster_branch w p layer_kwargs figsize add_attribution
         else raise_m (ValueError
           (''Filetype '' @ [CHR 0x27] @ path_suffix p @ [CHR 0x27] @ '' not recognized. ''
            @ ''Supported vectors: .shp .geojson .json .gpkg .fgb; ''
            @ ''Supported rasters: .tif .tiff .geotiff'')))))"

text \<open>The library calls made between two states, the later one reached from the earlier.\<close>

definition new_calls :: "state \<Rightarrow> state \<Rightarrow> lib_call list" where
  "new_calls s s' = drop (length (calls s)) (calls s')"

section \<open>Sequences of library calls\<close>

text \<open>
  For reasoning about the branches: the first call of a sequence that raises, as the calls
  made up to and including it and what it raises; and the run that makes the calls of a
  sequence in order and then returns a value.
\<close>

fun first_failure :: "world \<Rightarrow> lib_call list \<Rightarrow> (lib_call list \<times> exc) option" where
  "first_failure w [] = None"
| "first_failure w (c # cs) =
     (case lib_fails w c of
        Some x \<Rightarrow> Some ([c], x)
      | None \<Rightarrow>
          (case first_failure w cs of
             None \<Rightarrow> None
           | Some (made, x) \<Rightarrow> Some (c # made, x)))"

definition finish :: "world \<Rightarrow> lib_call list \<Rightarrow> 'a \<Rightarrow> 'a run" where
  "finish w cs r s =
     (case first_failure w cs of
        Some (made, x) \<Rightarrow> (Inl (Raised_by_library x), s\<lparr>calls := calls s @ made\<rparr>)
      | None \<Rightarrow> (Inr r, s\<lparr>calls := calls s @ cs\<rparr>))"

section \<open>Sample worlds\<close>

text \<open>
  A world in which no library call raises. Every path is on the file system but
  \<open>missing.shp\<close> and the paths with a component of more than 255 characters, for which
  \<open>stat\<close> raises \<open>OSError\<close> (file name too long). Vector files hold one line from
  \<open>(10, 50)\<close> to \<open>(11, 51)\<close> with no reference system declared, raster files a two-by-two
  grid in UTM zone 33N.
\<close>

definition name_too_long :: "string \<Rightarrow> bool" where
  "name_too_long p = list_ex (\<lambda>c. 255 < length c) (split_on CHR ''/'' p)"

definition sample_world :: world where
  "sample_world =
     \<lparr>on_disk = (\<lambda>p. p \<noteq> ''missing.shp'' \<and> \<not> name_too_long p),
      stat_fails =
        (\<lambda>p. if name_too_long p then Some (Exc ''OSError'' ''[Errno 36] File name too long'')
             else None),
      lib_fails = (\<lambda>c. None),
      read_file_result =
        (\<lambda>p. \<lparr>crs = None, geometry = [[(10, 50), (11, 51)]],
              total_bounds = (10, 50, 11, 51)\<rparr>),
      to_crs_result =
        (\<lambda>gdf n. ([[(1113195, 6446276), (1224514, 6621294)]],
                  (1113195, 6446276, 1224514, 6621294))),
      rasterio_open_result =
        (\<lambda>p. (Some (EPSG 32633), (500000, 5500000, 510000, 5510000), [[1, 2], [3, 4]])),
      transform_bounds_result = (\<lambda>c d b. (1669792, 6413525, 1685700, 6429500)),
      autoscale_result = (\<lambda>a. ((0, 100), (0, 100)))\<rparr>"

text \<open>The same world with the tile server out of reach.\<close>

definition offline_world :: world where
  "offline_world =
     sample_world
       \<lparr>lib_fails :=
          (\<lambda>c. case c of
                 Fetch_tiles _ \<Rightarrow> Some (Exc ''ConnectionError'' ''tile server unreachable'')
               | _ \<Rightarrow> None)\<rparr>"

text \<open>A world whose vector files hold one point, \<open>(1000, 2000)\<close> in Web Mercator.\<close>

definition point_world :: world where
  "point_world =
     sample_world
       \<lparr>read_file_result :=
          (\<lambda>p. \<lparr>crs = Some (EPSG 3857), geometry = [[(1000, 2000)]],
                total_bounds = (1000, 2000, 1000, 2000)\<rparr>),
        to_crs_result := (\<lambda>gdf n. (geometry gdf, total_bounds gdf))\<rparr>"

text \<open>Before the first call: no library call made, no handle open, no tile cached.\<close>

definition initial_state :: state where
  "initial_state = \<lparr>calls = [], open_handles = [], next_handle = 0, tile_cache = []\<rparr>"

section \<open>Facts about text and paths\<close>

text \<open>Lowering a capital is adding 32 to its code point.\<close>

lemma lower_char_adds_32:
  "is_upper_char c \<Longrightarrow> of_char (lower_char c) = (of_char c :: nat) + 32"
proof (cases c)
  case (Char b0 b1 b2 b3 b4 b5 b6 b7)
  assume "is_upper_char c"
  with Char show ?thesis
    by (cases b0; cases b1; cases b2; cases b3; cases b4; cases b5; cases b6; cases b7;
        simp add: lower_char_def is_upper_char_def Let_def)
qed

lemma rfind_absent: "c \<notin> set s \<Longrightarrow> rfind s c = - 1"
  by (induction s) (auto simp: Let_def)

lemma rfind_last: "c \<notin> set ext \<Longrightarrow> rfind (stem @ c # ext) c = int (length stem)"
  by (induction stem) (auto simp: Let_def rfind_absent)

lemma split_on_nonempty: "split_on c s \<noteq> []"
  by (induction s) (auto simp: Let_def)

lemma split_on_absent: "c \<notin> set s \<Longrightarrow> split_on c s = [s]"
  by (induction s) (auto simp: Let_def)

lemma split_on_append: "split_on c (a @ c # b) = split_on c a @ split_on c b"
  by (induction a) (auto simp: Let_def split_on_nonempty)

text \<open>The slashes of the root add empty components only, which are dropped.\<close>

lemma tail_Path:
  "tail (Path s) = filter (\<lambda>x. x \<noteq> [] \<and> x \<noteq> ''.'') (split_on CHR ''/'' s)"
proof (cases s)
  case Nil
  then show ?thesis by (simp add: Path_def)
next
  case (Cons a as)
  show ?thesis
  proof (cases "a = CHR ''/''")
    case False
    with Cons show ?thesis by (simp add: Path_def splitroot_def Let_def)
  next
    case True
    note slash = this
    show ?thesis
    proof (cases as)
      case Nil
      with Cons slash show ?thesis by (simp add: Path_def splitroot_def)
    next
      case (Cons b bs)
      with \<open>s = a # as\<close> slash show ?thesis
        by (cases bs) (auto simp add: Path_def splitroot_def Let_def)
    qed
  qed
qed

lemma path_name_final:
  assumes "CHR ''/'' \<notin> set base" "base \<noteq> []" "base \<noteq> ''.''"
  shows "path_name (Path (dir @ CHR ''/'' # base)) = base"
    and "path_name (Path base) = base"
  using assms by (simp_all add: path_name_def tail_Path split_on_append split_on_absent)

section \<open>Facts about runs\<close>

lemma bind_m_Inr:
  "bind_m m f s = (Inr r, s') \<longleftrightarrow> (\<exists>a t. m s = (Inr a, t) \<and> f a t = (Inr r, s'))"
  by (auto simp: bind_m_def split: prod.splits sum.splits)

lemma bind_m_Inl:
  "bind_m m f s = (Inl e, s') \<longleftrightarrow>
     m s = (Inl e, s') \<or> (\<exists>a t. m s = (Inr a, t) \<and> f a t = (Inl e, s'))"
  by (auto simp: bind_m_def split: prod.splits sum.splits)

lemma lib_Inr:
  "lib w c s = (Inr u, t) \<longleftrightarrow> lib_fails w c = None \<and> t = s\<lparr>calls := calls s @ [c]\<rparr>"
  by (auto simp: lib_def Let_def split: option.splits)

lemma lib_Inl:
  "lib w c s = (Inl e, t) \<longleftrightarrow>
     (\<exists>x. lib_fails w c = Some x \<and> e = Raised_by_library x) \<and>
     t = s\<lparr>calls := calls s @ [c]\<rparr>"
  by (auto simp: lib_def Let_def split: option.splits)

lemma return_m_Inr: "return_m a s = (Inr r, t) \<longleftrightarrow> r = a \<and> t = s"
  by (auto simp: return_m_def)

lemma return_m_Inl: "return_m a s = (Inl e, t) \<longleftrightarrow> False"
  by (simp add: return_m_def)

lemma close_Inr:
  "close src s = (Inr u, t) \<longleftrightarrow>
     t = s\<lparr>calls := calls s @ [Close (ds_name src)],
           open_handles := removeAll (handle src) (open_handles s)\<rparr>"
  by (auto simp: close_def)

lemma close_Inl: "close src s = (Inl e, t) \<longleftrightarrow> False"
  by (simp add: close_def)

lemmas run_Inr = bind_m_Inr lib_Inr return_m_Inr close_Inr

lemmas run_Inl = bind_m_Inl lib_Inl return_m_Inl close_Inl

lemma rasterio_open_Inr:
  "rasterio_open w p s = (Inr src, t) \<longleftrightarrow>
     lib_fails w (Rasterio_open (str_path p)) = None \<and>
     src = \<lparr>handle = next_handle s, ds_name = str_path p,
            ds_crs = fst (rasterio_open_result w (str_path p)),
            bounds = fst (snd (rasterio_open_result w (str_path p))),
            pixels = snd (snd (rasterio_open_result w (str_path p)))\<rparr> \<and>
     t = s\<lparr>calls := calls s @ [Rasterio_open (str_path p)],
           open_handles := open_handles s @ [next_handle s],
           next_handle := Suc (next_handle s)\<rparr>"
  by (auto simp: rasterio_open_def run_Inr split: prod.splits)

lemma rasterio_open_Inl:
  "rasterio_open w p s = (Inl e, t) \<longleftrightarrow>
     (\<exists>x. lib_fails w (Rasterio_open (str_path p)) = Some x \<and> e = Raised_by_library x) \<and>
     t = s\<lparr>calls := calls s @ [Rasterio_open (str_path p)]\<rparr>"
  by (auto simp: rasterio_open_def run_Inr run_Inl split: prod.splits)

text \<open>Tiles come from the cache or from a download that went through.\<close>

lemma fetch_tiles_Inr:
  "fetch_tiles w req s = (Inr u, t) \<longleftrightarrow>
     (if req \<in> set (tile_cache s) then t = s
      else lib_fails w (Fetch_tiles req) = None \<and>
           t = s\<lparr>calls := calls s @ [Fetch_tiles req],
                 tile_cache := tile_cache s @ [req]\<rparr>)"
  by (auto simp: fetch_tiles_def run_Inr)

lemma fetch_tiles_Inl:
  "fetch_tiles w req s = (Inl e, t) \<longleftrightarrow>
     req \<notin> set (tile_cache s) \<and>
     (\<exists>x. lib_fails w (Fetch_tiles req) = Some x \<and> e = Raised_by_library x) \<and>
     t = s\<lparr>calls := calls s @ [Fetch_tiles req]\<rparr>"
  by (auto simp: fetch_tiles_def run_Inr run_Inl)

text \<open>\<open>path.exists()\<close> leaves the state alone.\<close>

lemma path_exists_Inr:
  "path_exists w p s = (Inr b, t) \<longleftrightarrow>
     stat_fails w (str_path p) = None \<and> b = on_disk w (str_path p) \<and> t = s"
  by (auto simp: path_exists_def split: option.splits)

lemma path_exists_Inl:
  "path_exists w p s = (Inl e, t) \<longleftrightarrow>
     (\<exists>x. stat_fails w (str_path p) = Some x \<and> e = Raised_by_library x) \<and> t = s"
  by (auto simp: path_exists_def split: option.splits)


section \<open>Facts about the dispatcher\<close>

lemma disjoint_exts: "set vector_exts \<inter> set raster_exts = {}"
  by (simp add: vector_exts_def raster_exts_def)

lemma raster_not_vector: "is_raster p \<Longrightarrow> \<not> is_vector p"
  using disjoint_exts by (auto simp: is_raster_def is_vector_def)

section \<open>What each branch does\<close>

text \<open>The loader returns exactly when both of its calls go through.\<close>

lemma load_vector_Inr:
  "load_vector w p s = (Inr gdf, s') \<longleftrightarrow>
     (let src = read_file_result w (str_path p);
          src' = (if crs src = None then set_crs src 4326 else src) in
      lib_fails w (Read_file (str_path p)) = None \<and>
      lib_fails w (To_crs (crs src') 3857) = None \<and>
      gdf = \<lparr>crs = Some (EPSG 3857), geometry = fst (to_crs_result w src' 3857),
             total_bounds = snd (to_crs_result w src' 3857)\<rparr> \<and>
      s' = s\<lparr>calls := calls s @ [Read_file (str_path p), To_crs (crs src') 3857]\<rparr>)"
  by (auto simp: load_vector_def read_file_def to_crs_def run_Inr Let_def)


text \<open>The figure and the state a raster file ends in, and when.\<close>

lemma raster_branch_Inr:
  "raster_branch w p kw figsize a s = (Inr (fig, ax), s') \<longleftrightarrow>
    (let c = fst (rasterio_open_result w (str_path p));
         b = fst (snd (rasterio_open_result w (str_path p)));
         px = snd (snd (rasterio_open_result w (str_path p)));
         m = transform_bounds_result w c ''EPSG: 3857'' b;
         req = (Mapnik, Some (Crs_text ''EPSG: 3857''),
                nonsingular (item0 m) (item2 m), nonsingular (item1 m) (item3 m));
         cs = [Rasterio_open (str_path p), Subplots figsize, Show_raster (str_path p) kw,
               Transform_bounds c ''EPSG: 3857'' b,
               Set_xlim (item0 m) (item2 m), Set_ylim (item1 m) (item3 m),
               Add_basemap (Some (Crs_text ''EPSG: 3857'')) Mapnik a]
     in (\<forall>d \<in> set cs. lib_fails w d = None) \<and> ax = 0 \<and>
        fig = \<lparr>fig_size = figsize, fig_axes =
          [new_axes\<lparr>xlim := fst (autoscale_result w (Raster_image px c kw)),
                    ylim := snd (autoscale_result w (Raster_image px c kw)),
                    zorder := 2, patch_alpha := Some 0,
                    artists := [Raster_image px c kw]\<rparr>,
           new_axes\<lparr>xlim := nonsingular (item0 m) (item2 m),
                    ylim := nonsingular (item1 m) (item3 m),
                    frameon := False,
                    artists := [Basemap_tiles (Some (Crs_text ''EPSG: 3857'')) Mapnik a]\<rparr>]\<rparr> \<and>
        (if req \<in> set (tile_cache s)
         then s' = s\<lparr>calls := calls s @ cs @ [Close (str_path p)],
                     open_handles := removeAll (next_handle s) (open_handles s),
                     next_handle := Suc (next_handle s)\<rparr>
         else lib_fails w (Fetch_tiles req) = None \<and>
              s' = s\<lparr>calls := calls s @ cs @ [Fetch_tiles req, Close (str_path p)],
                     open_handles := removeAll (next_handle s) (open_handles s),
                     next_handle := Suc (next_handle s),
                     tile_cache := tile_cache s @ [req]\<rparr>))"
  unfolding raster_branch_def load_raster_def subplots_def show_raster_def
    transform_bounds_def add_axes_def set_xlim_def set_ylim_def add_basemap_def
  by (auto simp: run_Inr rasterio_open_Inr fetch_tiles_Inr Let_def update_axes_def
      draw_into_def new_axes_def split: prod.splits)

text \<open>An exception out of a branch is the exception of the last library call made.\<close>

lemma vector_branch_Inl:
  assumes "vector_branch w p kw figsize a s = (Inl e, s')"
  shows "\<exists>x. e = Raised_by_library x \<and> new_calls s s' \<noteq> [] \<and>
           calls s' = calls s @ new_calls s s' \<and>
           lib_fails w (last (new_calls s s')) = Some x \<and>
           (\<forall>d \<in> set (butlast (new_calls s s')). lib_fails w d = None) \<and>
           open_handles s' = open_handles s"
  using assms
  unfolding vector_branch_def load_vector_def read_file_def to_crs_def subplots_def
    gdf_plot_def add_basemap_def set_xlim_def set_ylim_def
  by (auto simp: run_Inr run_Inl fetch_tiles_Inr fetch_tiles_Inl Let_def new_calls_def
      split: if_splits)

lemma raster_branch_Inl:
  assumes "raster_branch w p kw figsize a s = (Inl e, s')"
  shows "\<exists>x. e = Raised_by_library x \<and> new_calls s s' \<noteq> [] \<and>
           calls s' = calls s @ new_calls s s' \<and>
           lib_fails w (last (new_calls s s')) = Some x \<and>
           (\<forall>d \<in> set (butlast (new_calls s s')). lib_fails w d = None) \<and>
           (\<forall>n. Close n \<notin> set (new_calls s s')) \<and>
           (lib_fails w (Rasterio_open (str_path p)) = None \<longrightarrow>
              open_handles s' = open_handles s @ [next_handle s])"
  using assms
  unfolding raster_branch_def load_raster_def subplots_def show_raster_def
    transform_bounds_def add_axes_def set_xlim_def set_ylim_def add_basemap_def
  by (auto simp: run_Inr run_Inl rasterio_open_Inr rasterio_open_Inl fetch_tiles_Inr
      fetch_tiles_Inl Let_def new_calls_def split: prod.splits if_splits)

section \<open>Facts about \<open>show_on_basemap\<close>\<close>

lemmas path_eval = Path_def splitroot_def str_path_def path_suffix_def path_name_def lower_def
  lower_char_def is_upper_char_def is_vector_def is_raster_def vector_exts_def raster_exts_def

lemmas world_eval = fs_exists_def sample_world_def offline_world_def point_world_def
  name_too_long_def initial_state_def

text \<open>A plain name is a path of its own.\<close>

lemma str_path_plain:
  assumes "CHR ''/'' \<notin> set p" "p \<noteq> []" "p \<noteq> ''.''"
  shows "str_path (Path p) = p"
proof -
  from assms(1,2) have "take 1 p \<noteq> ''/''"
    by (cases p) auto
  then have "Path p = \<lparr>root = [], tail = [p]\<rparr>"
    using assms by (simp add: Path_def splitroot_def split_on_absent)
  then show ?thesis
    using assms(2) by (simp add: str_path_def)
qed

lemma show_on_basemap_Inr_exists:
  "show_on_basemap w data_path layer_kwargs figsize add_attribution s = (Inr r, s') \<Longrightarrow>
   fs_exists w (str_path (Path data_path))"
  by (auto simp: show_on_basemap_def raise_m_def Let_def bind_m_Inr path_exists_Inr
      fs_exists_def split: if_splits)

lemma show_on_basemap_vector:
  "fs_exists w (str_path (Path data_path)) \<Longrightarrow> is_vector (Path data_path) \<Longrightarrow>
   show_on_basemap w data_path layer_kwargs figsize add_attribution =
     vector_branch w (Path data_path) (case layer_kwargs of None \<Rightarrow> [] | Some kw \<Rightarrow> kw)
       figsize add_attribution"
  by (rule ext) (simp add: show_on_basemap_def Let_def bind_m_def path_exists_def fs_exists_def)

lemma show_on_basemap_raster:
  "fs_exists w (str_path (Path data_path)) \<Longrightarrow> is_raster (Path data_path) \<Longrightarrow>
   show_on_basemap w data_path layer_kwargs figsize add_attribution =
     raster_branch w (Path data_path) (case layer_kwargs of None \<Rightarrow> [] | Some kw \<Rightarrow> kw)
       figsize add_attribution"
  by (rule ext)
    (simp add: show_on_basemap_def Let_def bind_m_def path_exists_def fs_exists_def
      raster_not_vector)

lemma show_on_basemap_unsupported:
  "fs_exists w (str_path (Path data_path)) \<Longrightarrow> \<not> is_vector (Path data_path) \<Longrightarrow>
   \<not> is_raster (Path data_path) \<Longrightarrow>
   show_on_basemap w data_path layer_kwargs figsize add_attribution s =
     (Inl (ValueError
        (''Filetype '' @ [CHR 0x27] @ path_suffix (Path data_path) @ [CHR 0x27]
         @ '' not recognized. ''
         @ ''Supported vectors: .shp .geojson .json .gpkg .fgb; ''
         @ ''Supported rasters: .tif .tiff .geotiff'')), s)"
  by (simp add: show_on_basemap_def Let_def bind_m_def path_exists_def fs_exists_def raise_m_def)

lemma show_on_basemap_not_found:
  "stat_fails w (str_path (Path data_path)) = None \<Longrightarrow>
   \<not> on_disk w (str_path (Path data_path)) \<Longrightarrow>
   show_on_basemap w data_path layer_kwargs figsize add_attribution s =
     (Inl (FileNotFoundError (''Could not find '' @ str_path (Path data_path) @ ''.'')), s)"
  by (simp add: show_on_basemap_def Let_def bind_m_def path_exists_def raise_m_def)

lemma show_on_basemap_stat_raises:
  "stat_fails w (str_path (Path data_path)) = Some x \<Longrightarrow>
   show_on_basemap w data_path layer_kwargs figsize add_attribution s =
     (Inl (Raised_by_library x), s)"
  by (simp add: show_on_basemap_def Let_def bind_m_def path_exists_def)

section \<open>A missing file\<close>

text \<open>The path of a name of 304 characters, and what the sample world says of it.\<close>

lemma long_name:
  "str_path (Path (replicate 300 CHR ''a'' @ ''.shp'')) = replicate 300 CHR ''a'' @ ''.shp''"
  "name_too_long (replicate 300 CHR ''a'' @ ''.shp'')"
proof -
  have s: "CHR ''/'' \<notin> set (replicate 300 CHR ''a'' @ ''.shp'')"
    by auto
  then show "str_path (Path (replicate 300 CHR ''a'' @ ''.shp'')) =
      replicate 300 CHR ''a'' @ ''.shp''"
    by (intro str_path_plain) auto
  from s show "name_too_long (replicate 300 CHR ''a'' @ ''.shp'')"
    by (simp add: name_too_long_def split_on_absent)
qed

text \<open>
  C2, as the code has it. When \<open>path.exists()\<close> returns \<open>False\<close>, \<open>show_on_basemap\<close>
  raises \<open>FileNotFoundError\<close>, whatever the extension, and the state is the one the call
  started in: no library call has been made, no file opened, and the extension has not been
  looked at. When \<open>path.exists()\<close> itself raises, which it does for some paths that are not
  there, that exception reaches the caller instead, the state again untouched.
\<close>

theorem missing_path_error:
  "(stat_fails w (str_path (Path data_path)) = None \<and>
    \<not> on_disk w (str_path (Path data_path)) \<longrightarrow>
      show_on_basemap w data_path layer_kwargs figsize add_attribution s =
        (Inl (FileNotFoundError (''Could not find '' @ str_path (Path data_path) @ ''.'')),
         s)) \<and>
   (\<forall>x. stat_fails w (str_path (Path data_path)) = Some x \<longrightarrow>
      show_on_basemap w data_path layer_kwargs figsize add_attribution s =
        (Inl (Raised_by_library x), s))"
  by (simp add: show_on_basemap_not_found show_on_basemap_stat_raises)

theorem missing_path_error_witness:
  "stat_fails sample_world (str_path (Path ''missing.shp'')) = None \<and>
   \<not> on_disk sample_world (str_path (Path ''missing.shp'')) \<and>
   show_on_basemap sample_world ''missing.shp'' None (10, 10) True initial_state =
     (Inl (FileNotFoundError ''Could not find missing.shp.''), initial_state) \<and>
   stat_fails sample_world (str_path (Path (replicate 300 CHR ''a'' @ ''.shp''))) =
     Some (Exc ''OSError'' ''[Errno 36] File name too long'') \<and>
   show_on_basemap sample_world (replicate 300 CHR ''a'' @ ''.shp'') (Some [])
       (10, 10) False initial_state =
     (Inl (Raised_by_library (Exc ''OSError'' ''[Errno 36] File name too long'')),
      initial_state)"
proof -
  have p: "str_path (Path ''missing.shp'') = ''missing.shp''"
    by (simp add: Path_def splitroot_def str_path_def)
  have a: "stat_fails sample_world (str_path (Path ''missing.shp'')) = None"
    and b: "\<not> on_disk sample_world (str_path (Path ''missing.shp''))"
    by (simp_all add: p sample_world_def name_too_long_def)
  have c: "stat_fails sample_world (str_path (Path (replicate 300 CHR ''a'' @ ''.shp''))) =
     Some (Exc ''OSError'' ''[Errno 36] File name too long'')"
    by (simp only: long_name) (simp add: sample_world_def long_name)
  note m = missing_path_error [of sample_world "''missing.shp''" None "(10, 10)" True
      initial_state, THEN conjunct1, THEN mp, OF conjI [OF a b]]
  note l = missing_path_error [of sample_world "replicate 300 CHR ''a'' @ ''.shp''" "Some []"
      "(10, 10)" False initial_state, THEN conjunct2, THEN spec, THEN mp, OF c]
  from m have m': "show_on_basemap sample_world ''missing.shp'' None (10, 10) True
      initial_state = (Inl (FileNotFoundError ''Could not find missing.shp.''), initial_state)"
    by (simp add: p)
  show ?thesis
    by (intro conjI) (rule a b m' c l)+
qed

text \<open>
  The claim as it stands fails on a name of 304 characters: no such file exists, and the
  call ends in the \<open>OSError\<close> of \<open>stat\<close>, not in \<open>FileNotFoundError\<close>.
\<close>

theorem missing_path_other_error:
  "\<not> on_disk sample_world (str_path (Path (replicate 300 CHR ''a'' @ ''.shp''))) \<and>
   show_on_basemap sample_world (replicate 300 CHR ''a'' @ ''.shp'') None (10, 10) True
       initial_state =
     (Inl (Raised_by_library (Exc ''OSError'' ''[Errno 36] File name too long'')),
      initial_state) \<and>
   show_on_basemap sample_world (replicate 300 CHR ''a'' @ ''.shp'') None (10, 10) True
       initial_state \<noteq>
     (Inl (FileNotFoundError
        (''Could not find '' @ str_path (Path (replicate 300 CHR ''a'' @ ''.shp'')) @ ''.'')),
      initial_state)"
proof -
  have c: "stat_fails sample_world (str_path (Path (replicate 300 CHR ''a'' @ ''.shp''))) =
     Some (Exc ''OSError'' ''[Errno 36] File name too long'')"
    by (simp only: long_name) (simp add: sample_world_def long_name)
  have d: "\<not> on_disk sample_world (str_path (Path (replicate 300 CHR ''a'' @ ''.shp'')))"
    by (simp only: long_name) (simp add: sample_world_def long_name)
  from d show_on_basemap_stat_raises [OF c] show ?thesis
    by simp
qed

section \<open>The vector loader\<close>

text \<open>
  C3. Whenever \<open>_load_vector\<close> returns a dataset, its reference system is EPSG:3857. A
  source without a reference system is first given EPSG:4326 and then reprojected: the
  reprojection is called on the frame that carries EPSG:4326. A source with a reference
  system is reprojected from that system. The result is never without a reference system
  and never in the system of the source.
\<close>

theorem load_vector_crs:
  assumes "load_vector w p s = (Inr gdf, s')"
  shows "crs gdf = Some (EPSG 3857) \<and>
         (crs (read_file_result w (str_path p)) = None \<longrightarrow>
            new_calls s s' = [Read_file (str_path p), To_crs (Some (EPSG 4326)) 3857] \<and>
            geometry gdf =
              fst (to_crs_result w (set_crs (read_file_result w (str_path p)) 4326) 3857) \<and>
            total_bounds gdf =
              snd (to_crs_result w (set_crs (read_file_result w (str_path p)) 4326) 3857)) \<and>
         (\<forall>c. crs (read_file_result w (str_path p)) = Some c \<longrightarrow>
            new_calls s s' = [Read_file (str_path p), To_crs (Some c) 3857] \<and>
            geometry gdf = fst (to_crs_result w (read_file_result w (str_path p)) 3857) \<and>
            total_bounds gdf = snd (to_crs_result w (read_file_result w (str_path p)) 3857))"
  using assms by (auto simp: load_vector_Inr Let_def new_calls_def set_crs_def)

theorem load_vector_crs_witness:
  "load_vector sample_world (Path ''data/my_counties.shp'') initial_state =
     (Inr \<lparr>crs = Some (EPSG 3857),
           geometry = [[(1113195, 6446276), (1224514, 6621294)]],
           total_bounds = (1113195, 6446276, 1224514, 6621294)\<rparr>,
      \<lparr>calls = [Read_file ''data/my_counties.shp'', To_crs (Some (EPSG 4326)) 3857],
       open_handles = [], next_handle = 0, tile_cache = []\<rparr>) \<and>
   crs (read_file_result sample_world (str_path (Path ''data/my_counties.shp''))) = None \<and>
   new_calls initial_state
     \<lparr>calls = [Read_file ''data/my_counties.shp'', To_crs (Some (EPSG 4326)) 3857],
      open_handles = [], next_handle = 0, tile_cache = []\<rparr> =
     [Read_file ''data/my_counties.shp'', To_crs (Some (EPSG 4326)) 3857]"
proof -
  have p: "str_path (Path ''data/my_counties.shp'') = ''data/my_counties.shp''"
    by (simp add: Path_def splitroot_def str_path_def)
  have l: "load_vector sample_world (Path ''data/my_counties.shp'') initial_state =
     (Inr \<lparr>crs = Some (EPSG 3857),
           geometry = [[(1113195, 6446276), (1224514, 6621294)]],
           total_bounds = (1113195, 6446276, 1224514, 6621294)\<rparr>,
      \<lparr>calls = [Read_file ''data/my_counties.shp'', To_crs (Some (EPSG 4326)) 3857],
       open_handles = [], next_handle = 0, tile_cache = []\<rparr>)"
    by (simp add: load_vector_Inr p Let_def sample_world_def initial_state_def set_crs_def)
  have n: "crs (read_file_result sample_world (str_path (Path ''data/my_counties.shp''))) = None"
    by (simp add: sample_world_def)
  from load_vector_crs [OF l] n l show ?thesis by (simp add: p)
qed

section \<open>The view of a vector file\<close>











section \<open>The frames of a raster file\<close>

text \<open>The sample raster file, run through the function.\<close>

lemma raster_path: "str_path (Path ''data/landcover.TIF'') = ''data/landcover.TIF''"
  by (simp add: Path_def splitroot_def str_path_def)

lemma raster_path_is_raster: "is_raster (Path ''data/landcover.TIF'')"
  by (simp add: path_eval Let_def)

lemma sample_raster_run:
  "show_on_basemap sample_world ''data/landcover.TIF'' None (10, 10) True initial_state =
     (Inr (\<lparr>fig_size = (10, 10), fig_axes =
          [new_axes\<lparr>xlim := (0, 100), ylim := (0, 100), zorder := 2, patch_alpha := Some 0,
                    artists := [Raster_image [[1, 2], [3, 4]] (Some (EPSG 32633)) []]\<rparr>,
           new_axes\<lparr>xlim := (1669792, 1685700), ylim := (6413525, 6429500),
                    frameon := False,
                    artists := [Basemap_tiles (Some (Crs_text ''EPSG: 3857'')) Mapnik True]\<rparr>]\<rparr>,
           0),
      \<lparr>calls =
         [Rasterio_open ''data/landcover.TIF'', Subplots (10, 10),
          Show_raster ''data/landcover.TIF'' [],
          Transform_bounds (Some (EPSG 32633)) ''EPSG: 3857''
            (500000, 5500000, 510000, 5510000),
          Set_xlim 1669792 1685700, Set_ylim 6413525 6429500,
          Add_basemap (Some (Crs_text ''EPSG: 3857'')) Mapnik True,
          Fetch_tiles (Mapnik, Some (Crs_text ''EPSG: 3857''), (1669792, 1685700),
            (6413525, 6429500)),
          Close ''data/landcover.TIF''],
       open_handles = [], next_handle = 1,
       tile_cache = [(Mapnik, Some (Crs_text ''EPSG: 3857''), (1669792, 1685700),
            (6413525, 6429500))]\<rparr>)"
proof -
  have ex: "fs_exists sample_world (str_path (Path ''data/landcover.TIF''))"
    by (simp add: raster_path world_eval)
  show ?thesis
    unfolding show_on_basemap_raster [OF ex raster_path_is_raster]
    by (simp add: raster_branch_Inr raster_path Let_def sample_world_def initial_state_def
        item0_def item1_def item2_def item3_def nonsingular_def)
qed



text \<open>
  C6. For a raster file the basemap axes is drawn first and the data axes after it, on top
  (the data axes has \<open>zorder\<close> 2, the basemap axes the default 0), the background of the
  data axes is transparent, and the axes returned with the figure is the data axes, the one
  holding the raster image, not the basemap axes.
\<close>

theorem raster_frame_order:
  assumes "is_raster (Path data_path)"
    and "show_on_basemap w data_path layer_kwargs figsize add_attribution s =
           (Inr (fig, ax), s')"
  shows "draw_order fig = [1, 0] \<and> ax = 0 \<and>
         patch_alpha (fig_axes fig ! ax) = Some 0 \<and>
         zorder (fig_axes fig ! ax) = 2 \<and> zorder (fig_axes fig ! 1) = 0 \<and>
         (\<exists>px c kw. artists (fig_axes fig ! ax) = [Raster_image px c kw]) \<and>
         (\<exists>c src a. artists (fig_axes fig ! 1) = [Basemap_tiles c src a])"
proof -
  have ex: "fs_exists w (str_path (Path data_path))"
    using assms(2) by (rule show_on_basemap_Inr_exists)
  from assms(2) have "raster_branch w (Path data_path)
      (case layer_kwargs of None \<Rightarrow> [] | Some kw \<Rightarrow> kw) figsize add_attribution s =
        (Inr (fig, ax), s')"
    by (simp add: show_on_basemap_raster [OF ex assms(1)])
  then show ?thesis
    by (simp add: raster_branch_Inr Let_def new_axes_def draw_order_def)
qed

theorem raster_frame_order_witness:
  "\<exists>fig ax s'.
     is_raster (Path ''data/landcover.TIF'') \<and>
     show_on_basemap sample_world ''data/landcover.TIF'' None (10, 10) True initial_state =
       (Inr (fig, ax), s') \<and>
     draw_order fig = [1, 0] \<and> ax = 0 \<and> patch_alpha (fig_axes fig ! ax) = Some 0 \<and>
     artists (fig_axes fig ! ax) = [Raster_image [[1, 2], [3, 4]] (Some (EPSG 32633)) []]"
proof -
  from raster_frame_order [OF raster_path_is_raster sample_raster_run]
    raster_path_is_raster sample_raster_run
  show ?thesis by (simp add: new_axes_def)
qed

section \<open>The raster handle\<close>

text \<open>The sample raster file with the tile server out of reach, and what success records.\<close>

lemma raster_branch_Inr_calls:
  assumes "raster_branch w p kw figsize a s = (Inr r, s')"
  shows "\<forall>d \<in> set (new_calls s s'). lib_fails w d = None \<or> (\<exists>n. d = Close n)"
  using assms
  by (cases r) (auto simp: raster_branch_Inr Let_def new_calls_def split: if_splits)

lemma offline_raster_run:
  "show_on_basemap offline_world ''data/landcover.TIF'' None (10, 10) True initial_state =
     (Inl (Raised_by_library (Exc ''ConnectionError'' ''tile server unreachable'')),
      \<lparr>calls =
         [Rasterio_open ''data/landcover.TIF'', Subplots (10, 10),
          Show_raster ''data/landcover.TIF'' [],
          Transform_bounds (Some (EPSG 32633)) ''EPSG: 3857''
            (500000, 5500000, 510000, 5510000),
          Set_xlim 1669792 1685700, Set_ylim 6413525 6429500,
          Add_basemap (Some (Crs_text ''EPSG: 3857'')) Mapnik True,
          Fetch_tiles (Mapnik, Some (Crs_text ''EPSG: 3857''), (1669792, 1685700),
            (6413525, 6429500))],
       open_handles = [0], next_handle = 1, tile_cache = []\<rparr>)"
proof -
  have ex: "fs_exists offline_world (str_path (Path ''data/landcover.TIF''))"
    by (simp add: raster_path world_eval)
  show ?thesis
    unfolding show_on_basemap_raster [OF ex raster_path_is_raster]
    by (simp add: raster_branch_def load_raster_def rasterio_open_def subplots_def
        show_raster_def transform_bounds_def add_axes_def set_xlim_def set_ylim_def
        add_basemap_def fetch_tiles_def bind_m_def lib_def return_m_def raster_path Let_def
        offline_world_def sample_world_def initial_state_def update_axes_def draw_into_def
        item0_def item1_def item2_def item3_def nonsingular_def)
qed

text \<open>
  C7. For a raster file, the handle that \<open>_load_raster\<close> opens is open after the loader.
  When \<open>show_on_basemap\<close> returns, the handle is closed, and closing it was the last thing
  the function did. When \<open>show_on_basemap\<close> raises after the loader has returned, the
  handle is still open and no \<open>close\<close> has been called.
\<close>

theorem raster_handle_closed:
  assumes "is_raster (Path data_path)" and "fs_exists w (str_path (Path data_path))"
    and "load_raster w (Path data_path) s = (Inr src, t)"
  shows "handle src \<in> set (open_handles t) \<and>
         (\<forall>r s'. show_on_basemap w data_path layer_kwargs figsize add_attribution s =
                   (Inr r, s') \<longrightarrow>
            handle src \<notin> set (open_handles s') \<and> last (calls s') = Close (ds_name src)) \<and>
         (\<forall>e s'. show_on_basemap w data_path layer_kwargs figsize add_attribution s =
                   (Inl e, s') \<longrightarrow>
            handle src \<in> set (open_handles s') \<and>
            Close (ds_name src) \<notin> set (new_calls s s'))"
proof -
  from assms(3) have o: "lib_fails w (Rasterio_open (str_path (Path data_path))) = None"
    and h: "handle src = next_handle s" and n: "ds_name src = str_path (Path data_path)"
    and t: "open_handles t = open_handles s @ [next_handle s]"
    by (auto simp: load_raster_def rasterio_open_Inr)
  have 1: "handle src \<in> set (open_handles t)"
    by (simp add: h t)
  have 2: "handle src \<notin> set (open_handles s') \<and> last (calls s') = Close (ds_name src)"
    if "show_on_basemap w data_path layer_kwargs figsize add_attribution s = (Inr r, s')"
    for r s'
    using that unfolding show_on_basemap_raster [OF assms(2,1)]
    by (cases r) (auto simp: raster_branch_Inr Let_def h n split: if_splits)
  have 3: "handle src \<in> set (open_handles s') \<and> Close (ds_name src) \<notin> set (new_calls s s')"
    if "show_on_basemap w data_path layer_kwargs figsize add_attribution s = (Inl e, s')"
    for e s'
    using raster_branch_Inl [OF that [unfolded show_on_basemap_raster [OF assms(2,1)]]] o
    by (auto simp: h)
  from 1 2 3 show ?thesis by blast
qed


theorem raster_handle_closed_witness:
  "is_raster (Path ''data/landcover.TIF'') \<and>
   fs_exists sample_world (str_path (Path ''data/landcover.TIF'')) \<and>
   fs_exists offline_world (str_path (Path ''data/landcover.TIF'')) \<and>
   (\<exists>src t. load_raster sample_world (Path ''data/landcover.TIF'') initial_state =
              (Inr src, t) \<and> handle src = 0 \<and> open_handles t = [0]) \<and>
   (\<exists>src t. load_raster offline_world (Path ''data/landcover.TIF'') initial_state =
              (Inr src, t) \<and> handle src = 0 \<and> open_handles t = [0]) \<and>
   (\<exists>r s'. show_on_basemap sample_world ''data/landcover.TIF'' None (10, 10) True
             initial_state = (Inr r, s') \<and>
           0 \<notin> set (open_handles s') \<and> last (calls s') = Close ''data/landcover.TIF'') \<and>
   (\<exists>e s'. show_on_basemap offline_world ''data/landcover.TIF'' None (10, 10) True
             initial_state = (Inl e, s') \<and>
           0 \<in> set (open_handles s') \<and>
           Close ''data/landcover.TIF'' \<notin> set (new_calls initial_state s'))"
proof -
  have ex1: "fs_exists sample_world (str_path (Path ''data/landcover.TIF''))"
    by (simp add: raster_path world_eval)
  have ex2: "fs_exists offline_world (str_path (Path ''data/landcover.TIF''))"
    by (simp add: raster_path world_eval)
  obtain src1 t1 where
    l1: "load_raster sample_world (Path ''data/landcover.TIF'') initial_state = (Inr src1, t1)"
    and h1: "handle src1 = 0" "open_handles t1 = [0]" "ds_name src1 = ''data/landcover.TIF''"
    by (simp add: load_raster_def rasterio_open_Inr raster_path sample_world_def
        initial_state_def)
  obtain src2 t2 where
    l2: "load_raster offline_world (Path ''data/landcover.TIF'') initial_state = (Inr src2, t2)"
    and h2: "handle src2 = 0" "open_handles t2 = [0]" "ds_name src2 = ''data/landcover.TIF''"
    by (simp add: load_raster_def rasterio_open_Inr raster_path offline_world_def
        sample_world_def initial_state_def)
  from raster_handle_closed [OF raster_path_is_raster ex1 l1, of None "(10, 10)" True]
    sample_raster_run h1
  have a: "\<exists>r s'. show_on_basemap sample_world ''data/landcover.TIF'' None (10, 10) True
             initial_state = (Inr r, s') \<and>
           0 \<notin> set (open_handles s') \<and> last (calls s') = Close ''data/landcover.TIF''"
    by simp
  from raster_handle_closed [OF raster_path_is_raster ex2 l2, of None "(10, 10)" True]
    offline_raster_run h2
  have b: "\<exists>e s'. show_on_basemap offline_world ''data/landcover.TIF'' None (10, 10) True
             initial_state = (Inl e, s') \<and>
           0 \<in> set (open_handles s') \<and>
           Close ''data/landcover.TIF'' \<notin> set (new_calls initial_state s')"
    by (simp add: new_calls_def initial_state_def)
  from raster_path_is_raster ex1 ex2 l1 h1 l2 h2 a b show ?thesis by blast
qed

section \<open>What a later call sees of an earlier one\<close>

lemma bind_return_left: "bind_m (return_m a) f = f a"
  by (rule ext) (simp add: bind_m_def return_m_def)

lemma bind_assoc: "bind_m (bind_m m f) g = bind_m m (\<lambda>x. bind_m (f x) g)"
  by (rule ext) (simp add: bind_m_def split: prod.splits sum.splits)

lemma finish_Nil: "finish w [] r = return_m r"
  by (rule ext) (simp add: finish_def return_m_def)

lemma finish_Cons: "finish w (c # cs) r = bind_m (lib w c) (\<lambda>_. finish w cs r)"
  by (rule ext)
    (simp add: finish_def bind_m_def lib_def Let_def split: option.splits prod.splits)

text \<open>
  Each branch is a sequence of library calls, the tiles taken from the cache or
  downloaded in between, and a figure that does not depend on the state.
\<close>

lemma vector_branch_calls:
  "vector_branch w p kw figsize a =
    (let src = read_file_result w (str_path p);
         src' = (if crs src = None then set_crs src 4326 else src);
         gdf = \<lparr>crs = Some (EPSG 3857), geometry = fst (to_crs_result w src' 3857),
                total_bounds = snd (to_crs_result w src' 3857)\<rparr>;
         tb = snd (to_crs_result w src' 3857)
     in bind_m (finish w
                  [Read_file (str_path p), To_crs (crs src') 3857, Subplots figsize,
                   Gdf_plot kw, Add_basemap (Some (EPSG 3857)) Mapnik a] ()) (\<lambda>_.
        bind_m (fetch_tiles w
                  (Mapnik, Some (EPSG 3857), fst (autoscale_result w (Vector_layer gdf kw)),
                   snd (autoscale_result w (Vector_layer gdf kw)))) (\<lambda>_.
        finish w [Set_xlim (item0 tb) (item2 tb), Set_ylim (item1 tb) (item3 tb)]
          (\<lparr>fig_size = figsize, fig_axes =
             [new_axes\<lparr>xlim := nonsingular (item0 tb) (item2 tb),
                       ylim := nonsingular (item1 tb) (item3 tb),
                       xlabel := ''Web Mercator X (meters)'',
                       ylabel := ''Web Mercator Y (meters)'',
                       artists := [Vector_layer gdf kw,
                                   Basemap_tiles (Some (EPSG 3857)) Mapnik a]\<rparr>]\<rparr>,
           0))))"
  by (simp add: vector_branch_def load_vector_def read_file_def to_crs_def subplots_def
      gdf_plot_def add_basemap_def set_xlim_def set_ylim_def
      finish_Cons finish_Nil bind_assoc bind_return_left
      Let_def update_axes_def draw_into_def new_axes_def)


lemma bind_rasterio_open_cong:
  assumes "\<And>h. f \<lparr>handle = h, ds_name = str_path p,
                    ds_crs = fst (rasterio_open_result w (str_path p)),
                    bounds = fst (snd (rasterio_open_result w (str_path p))),
                    pixels = snd (snd (rasterio_open_result w (str_path p)))\<rparr> =
                g \<lparr>handle = h, ds_name = str_path p,
                    ds_crs = fst (rasterio_open_result w (str_path p)),
                    bounds = fst (snd (rasterio_open_result w (str_path p))),
                    pixels = snd (snd (rasterio_open_result w (str_path p)))\<rparr>"
  shows "bind_m (rasterio_open w p) f = bind_m (rasterio_open w p) g"
  by (rule ext)
    (simp add: rasterio_open_def bind_m_def lib_def Let_def case_prod_beta assms
      split: option.splits)

lemma raster_branch_calls:
  "raster_branch w p kw figsize a =
    (let c = fst (rasterio_open_result w (str_path p));
         b = fst (snd (rasterio_open_result w (str_path p)));
         px = snd (snd (rasterio_open_result w (str_path p)));
         m = transform_bounds_result w c ''EPSG: 3857'' b
     in bind_m (rasterio_open w p) (\<lambda>src.
        bind_m (finish w
                  [Subplots figsize, Show_raster (str_path p) kw,
                   Transform_bounds c ''EPSG: 3857'' b,
                   Set_xlim (item0 m) (item2 m), Set_ylim (item1 m) (item3 m),
                   Add_basemap (Some (Crs_text ''EPSG: 3857'')) Mapnik a] ()) (\<lambda>_.
        bind_m (fetch_tiles w
                  (Mapnik, Some (Crs_text ''EPSG: 3857''),
                   nonsingular (item0 m) (item2 m), nonsingular (item1 m) (item3 m))) (\<lambda>_.
        bind_m (close src) (\<lambda>_.
        return_m
          (\<lparr>fig_size = figsize, fig_axes =
             [new_axes\<lparr>xlim := fst (autoscale_result w (Raster_image px c kw)),
                       ylim := snd (autoscale_result w (Raster_image px c kw)),
                       zorder := 2, patch_alpha := Some 0,
                       artists := [Raster_image px c kw]\<rparr>,
              new_axes\<lparr>xlim := nonsingular (item0 m) (item2 m),
                       ylim := nonsingular (item1 m) (item3 m),
                       frameon := False,
                       artists := [Basemap_tiles (Some (Crs_text ''EPSG: 3857'')) Mapnik
                                     a]\<rparr>]\<rparr>,
           0))))))"
  unfolding raster_branch_def load_raster_def Let_def
  by (rule bind_rasterio_open_cong)
    (simp add: subplots_def show_raster_def transform_bounds_def add_axes_def set_xlim_def
      set_ylim_def add_basemap_def finish_Cons finish_Nil bind_assoc bind_return_left
      update_axes_def draw_into_def new_axes_def case_prod_beta)


text \<open>
  Such a run sees of the state it starts in only the tile cache, and a second run started
  where a first one ended has the outcome of the first.
\<close>

lemma tiled_same:
  assumes "set (tile_cache s1) = set (tile_cache s2)"
  shows "fst (bind_m (finish w cs1 ()) (\<lambda>_. bind_m (fetch_tiles w req)
              (\<lambda>_. finish w cs2 r)) s1) =
         fst (bind_m (finish w cs1 ()) (\<lambda>_. bind_m (fetch_tiles w req)
              (\<lambda>_. finish w cs2 r)) s2) \<and>
         new_calls s1 (snd (bind_m (finish w cs1 ()) (\<lambda>_. bind_m (fetch_tiles w req)
              (\<lambda>_. finish w cs2 r)) s1)) =
         new_calls s2 (snd (bind_m (finish w cs1 ()) (\<lambda>_. bind_m (fetch_tiles w req)
              (\<lambda>_. finish w cs2 r)) s2))"
  using assms
  by (simp add: bind_m_def finish_def fetch_tiles_def lib_def new_calls_def Let_def
      split: option.splits)

lemma tiled_again:
  "fst (bind_m (finish w cs1 ()) (\<lambda>_. bind_m (fetch_tiles w req) (\<lambda>_. finish w cs2 r))
         (snd (bind_m (finish w cs1 ()) (\<lambda>_. bind_m (fetch_tiles w req)
                 (\<lambda>_. finish w cs2 r)) s))) =
   fst (bind_m (finish w cs1 ()) (\<lambda>_. bind_m (fetch_tiles w req) (\<lambda>_. finish w cs2 r)) s)"
  by (simp add: bind_m_def finish_def fetch_tiles_def lib_def Let_def
      split: option.splits)

lemma opened_same:
  assumes "set (tile_cache s1) = set (tile_cache s2)"
  shows "fst (bind_m (rasterio_open w p) (\<lambda>src. bind_m (finish w cs1 ())
              (\<lambda>_. bind_m (fetch_tiles w req) (\<lambda>_. bind_m (close src)
              (\<lambda>_. return_m r)))) s1) =
         fst (bind_m (rasterio_open w p) (\<lambda>src. bind_m (finish w cs1 ())
              (\<lambda>_. bind_m (fetch_tiles w req) (\<lambda>_. bind_m (close src)
              (\<lambda>_. return_m r)))) s2) \<and>
         new_calls s1 (snd (bind_m (rasterio_open w p) (\<lambda>src. bind_m (finish w cs1 ())
              (\<lambda>_. bind_m (fetch_tiles w req) (\<lambda>_. bind_m (close src)
              (\<lambda>_. return_m r)))) s1)) =
         new_calls s2 (snd (bind_m (rasterio_open w p) (\<lambda>src. bind_m (finish w cs1 ())
              (\<lambda>_. bind_m (fetch_tiles w req) (\<lambda>_. bind_m (close src)
              (\<lambda>_. return_m r)))) s2))"
  using assms
  by (simp add: bind_m_def rasterio_open_def finish_def fetch_tiles_def lib_def close_def
      return_m_def new_calls_def Let_def case_prod_beta split: option.splits)

lemma opened_again:
  "fst (bind_m (rasterio_open w p) (\<lambda>src. bind_m (finish w cs1 ())
          (\<lambda>_. bind_m (fetch_tiles w req) (\<lambda>_. bind_m (close src) (\<lambda>_. return_m r))))
         (snd (bind_m (rasterio_open w p) (\<lambda>src. bind_m (finish w cs1 ())
                 (\<lambda>_. bind_m (fetch_tiles w req) (\<lambda>_. bind_m (close src)
                 (\<lambda>_. return_m r)))) s))) =
   fst (bind_m (rasterio_open w p) (\<lambda>src. bind_m (finish w cs1 ())
          (\<lambda>_. bind_m (fetch_tiles w req) (\<lambda>_. bind_m (close src) (\<lambda>_. return_m r)))) s)"
  by (simp add: bind_m_def rasterio_open_def finish_def fetch_tiles_def lib_def close_def
      return_m_def Let_def case_prod_beta split: option.splits)


lemma vector_branch_same:
  assumes "set (tile_cache s1) = set (tile_cache s2)"
  shows "fst (vector_branch w p kw figsize a s1) = fst (vector_branch w p kw figsize a s2) \<and>
         new_calls s1 (snd (vector_branch w p kw figsize a s1)) =
         new_calls s2 (snd (vector_branch w p kw figsize a s2))"
  unfolding vector_branch_calls Let_def using assms by (rule tiled_same)

lemma vector_branch_again:
  "fst (vector_branch w p kw figsize a (snd (vector_branch w p kw figsize a s))) =
   fst (vector_branch w p kw figsize a s)"
  unfolding vector_branch_calls Let_def by (rule tiled_again)

lemma raster_branch_same:
  assumes "set (tile_cache s1) = set (tile_cache s2)"
  shows "fst (raster_branch w p kw figsize a s1) = fst (raster_branch w p kw figsize a s2) \<and>
         new_calls s1 (snd (raster_branch w p kw figsize a s1)) =
         new_calls s2 (snd (raster_branch w p kw figsize a s2))"
  unfolding raster_branch_calls Let_def using assms by (rule opened_same)

lemma raster_branch_again:
  "fst (raster_branch w p kw figsize a (snd (raster_branch w p kw figsize a s))) =
   fst (raster_branch w p kw figsize a s)"
  unfolding raster_branch_calls Let_def by (rule opened_again)

text \<open>The sample raster file, the tile server out of reach, after a call that reached it.\<close>

lemma cached_offline_run:
  "show_on_basemap offline_world ''data/landcover.TIF'' None (10, 10) True
     (snd (show_on_basemap sample_world ''data/landcover.TIF'' None (10, 10) True
             initial_state)) =
     (Inr (\<lparr>fig_size = (10, 10), fig_axes =
          [new_axes\<lparr>xlim := (0, 100), ylim := (0, 100), zorder := 2, patch_alpha := Some 0,
                    artists := [Raster_image [[1, 2], [3, 4]] (Some (EPSG 32633)) []]\<rparr>,
           new_axes\<lparr>xlim := (1669792, 1685700), ylim := (6413525, 6429500),
                    frameon := False,
                    artists := [Basemap_tiles (Some (Crs_text ''EPSG: 3857'')) Mapnik True]\<rparr>]\<rparr>,
           0),
      \<lparr>calls =
         [Rasterio_open ''data/landcover.TIF'', Subplots (10, 10),
          Show_raster ''data/landcover.TIF'' [],
          Transform_bounds (Some (EPSG 32633)) ''EPSG: 3857''
            (500000, 5500000, 510000, 5510000),
          Set_xlim 1669792 1685700, Set_ylim 6413525 6429500,
          Add_basemap (Some (Crs_text ''EPSG: 3857'')) Mapnik True,
          Fetch_tiles (Mapnik, Some (Crs_text ''EPSG: 3857''), (1669792, 1685700),
            (6413525, 6429500)),
          Close ''data/landcover.TIF'',
          Rasterio_open ''data/landcover.TIF'', Subplots (10, 10),
          Show_raster ''data/landcover.TIF'' [],
          Transform_bounds (Some (EPSG 32633)) ''EPSG: 3857''
            (500000, 5500000, 510000, 5510000),
          Set_xlim 1669792 1685700, Set_ylim 6413525 6429500,
          Add_basemap (Some (Crs_text ''EPSG: 3857'')) Mapnik True,
          Close ''data/landcover.TIF''],
       open_handles = [], next_handle = 2,
       tile_cache = [(Mapnik, Some (Crs_text ''EPSG: 3857''), (1669792, 1685700),
            (6413525, 6429500))]\<rparr>)"
proof -
  have ex: "fs_exists offline_world (str_path (Path ''data/landcover.TIF''))"
    by (simp add: raster_path world_eval)
  show ?thesis
    unfolding sample_raster_run show_on_basemap_raster [OF ex raster_path_is_raster]
    by (simp add: raster_branch_Inr raster_path Let_def offline_world_def sample_world_def
        item0_def item1_def item2_def item3_def nonsingular_def)
qed

text \<open>
  C9, as the code has it. The function keeps no state of its own, but the libraries keep
  state from one call of \<open>show_on_basemap\<close> to the next: the handles left open by a call
  that raised, and the tiles that contextily has downloaded. Of this a call sees the tile
  cache only. Two calls with the same inputs, in the same world, started in states that
  hold the same tiles, have the same outcome (the figure and axes returned, or the error
  raised) and make the same library calls, whatever else earlier calls have left behind.
  And a call is safe to repeat: started where a first call ended, in the same world, a
  second one has the outcome of the first. (A figure is its size and its axes here; the
  number that pyplot gives it, one more at every call, is not part of it.)
\<close>

theorem calls_see_tile_cache_only:
  "(set (tile_cache s1) = set (tile_cache s2) \<longrightarrow>
      fst (show_on_basemap w data_path layer_kwargs figsize add_attribution s1) =
      fst (show_on_basemap w data_path layer_kwargs figsize add_attribution s2) \<and>
      new_calls s1
        (snd (show_on_basemap w data_path layer_kwargs figsize add_attribution s1)) =
      new_calls s2
        (snd (show_on_basemap w data_path layer_kwargs figsize add_attribution s2))) \<and>
   fst (show_on_basemap w data_path layer_kwargs figsize add_attribution
          (snd (show_on_basemap w data_path layer_kwargs figsize add_attribution s1))) =
   fst (show_on_basemap w data_path layer_kwargs figsize add_attribution s1)"
proof -
  have a: "fst (show_on_basemap w data_path layer_kwargs figsize add_attribution s1) =
      fst (show_on_basemap w data_path layer_kwargs figsize add_attribution s2) \<and>
      new_calls s1
        (snd (show_on_basemap w data_path layer_kwargs figsize add_attribution s1)) =
      new_calls s2
        (snd (show_on_basemap w data_path layer_kwargs figsize add_attribution s2))"
    if c: "set (tile_cache s1) = set (tile_cache s2)"
    using vector_branch_same [OF c, of w "Path data_path" _ figsize add_attribution]
      raster_branch_same [OF c, of w "Path data_path" _ figsize add_attribution]
    by (simp add: show_on_basemap_def Let_def raise_m_def new_calls_def bind_m_def
        path_exists_def split: option.splits)
  have b: "fst (show_on_basemap w data_path layer_kwargs figsize add_attribution
          (snd (show_on_basemap w data_path layer_kwargs figsize add_attribution s1))) =
     fst (show_on_basemap w data_path layer_kwargs figsize add_attribution s1)"
    using vector_branch_again [of w "Path data_path" _ figsize add_attribution s1]
      raster_branch_again [of w "Path data_path" _ figsize add_attribution s1]
    by (simp add: show_on_basemap_def Let_def raise_m_def bind_m_def path_exists_def
        split: option.splits)
  from a b show ?thesis
    by blast
qed

theorem calls_see_tile_cache_only_witness:
  "set (tile_cache initial_state) =
     set (tile_cache (snd (show_on_basemap offline_world ''data/landcover.TIF'' None
            (10, 10) True initial_state))) \<and>
   calls initial_state \<noteq>
     calls (snd (show_on_basemap offline_world ''data/landcover.TIF'' None
            (10, 10) True initial_state)) \<and>
   open_handles initial_state \<noteq>
     open_handles (snd (show_on_basemap offline_world ''data/landcover.TIF'' None
            (10, 10) True initial_state)) \<and>
   fst (show_on_basemap sample_world ''data/landcover.TIF'' None (10, 10) True
          initial_state) =
   fst (show_on_basemap sample_world ''data/landcover.TIF'' None (10, 10) True
          (snd (show_on_basemap offline_world ''data/landcover.TIF'' None
            (10, 10) True initial_state))) \<and>
   new_calls initial_state
     (snd (show_on_basemap sample_world ''data/landcover.TIF'' None (10, 10) True
          initial_state)) =
   new_calls
     (snd (show_on_basemap offline_world ''data/landcover.TIF'' None
            (10, 10) True initial_state))
     (snd (show_on_basemap sample_world ''data/landcover.TIF'' None (10, 10) True
          (snd (show_on_basemap offline_world ''data/landcover.TIF'' None
            (10, 10) True initial_state)))) \<and>
   fst (show_on_basemap sample_world ''data/landcover.TIF'' None (10, 10) True
          (snd (show_on_basemap sample_world ''data/landcover.TIF'' None (10, 10) True
             initial_state))) =
   fst (show_on_basemap sample_world ''data/landcover.TIF'' None (10, 10) True
          initial_state)"
proof -
  have c: "set (tile_cache initial_state) =
     set (tile_cache (snd (show_on_basemap offline_world ''data/landcover.TIF'' None
            (10, 10) True initial_state)))"
    by (simp add: offline_raster_run) (simp add: initial_state_def)
  have d: "calls initial_state \<noteq>
     calls (snd (show_on_basemap offline_world ''data/landcover.TIF'' None
            (10, 10) True initial_state))"
    by (simp add: offline_raster_run) (simp add: initial_state_def)
  have e: "open_handles initial_state \<noteq>
     open_handles (snd (show_on_basemap offline_world ''data/landcover.TIF'' None
            (10, 10) True initial_state))"
    by (simp add: offline_raster_run) (simp add: initial_state_def)
  note t = calls_see_tile_cache_only [of initial_state
      "snd (show_on_basemap offline_world ''data/landcover.TIF'' None (10, 10) True
         initial_state)"
      sample_world "''data/landcover.TIF''" None "(10, 10)" True]
  from c d e t [THEN conjunct1, THEN mp, OF c, THEN conjunct1]
    t [THEN conjunct1, THEN mp, OF c, THEN conjunct2] t [THEN conjunct2]
  show ?thesis
    by (intro conjI)
qed

text \<open>
  The claim as it stands fails on the tile cache. With the tile server out of reach, a
  call for the sample raster file raises the \<open>ConnectionError\<close> of the download; the same
  call, in the same world, made after a call that reached the server, finds the tiles in
  the cache and returns the figure.
\<close>

theorem later_call_sees_earlier_tiles:
  "fst (show_on_basemap offline_world ''data/landcover.TIF'' None (10, 10) True
          initial_state) =
     Inl (Raised_by_library (Exc ''ConnectionError'' ''tile server unreachable'')) \<and>
   fst (show_on_basemap offline_world ''data/landcover.TIF'' None (10, 10) True
          (snd (show_on_basemap sample_world ''data/landcover.TIF'' None (10, 10) True
                  initial_state))) =
     Inr (\<lparr>fig_size = (10, 10), fig_axes =
          [new_axes\<lparr>xlim := (0, 100), ylim := (0, 100), zorder := 2, patch_alpha := Some 0,
                    artists := [Raster_image [[1, 2], [3, 4]] (Some (EPSG 32633)) []]\<rparr>,
           new_axes\<lparr>xlim := (1669792, 1685700), ylim := (6413525, 6429500),
                    frameon := False,
                    artists := [Basemap_tiles (Some (Crs_text ''EPSG: 3857'')) Mapnik True]\<rparr>]\<rparr>,
           0) \<and>
   fst (show_on_basemap offline_world ''data/landcover.TIF'' None (10, 10) True
          initial_state) \<noteq>
   fst (show_on_basemap offline_world ''data/landcover.TIF'' None (10, 10) True
          (snd (show_on_basemap sample_world ''data/landcover.TIF'' None (10, 10) True
                  initial_state)))"
  by (simp add: offline_raster_run cached_offline_run)

section \<open>Errors\<close>

text \<open>A vector file that ends in a figure: no library call on the way has raised.\<close>

lemma vector_branch_Inr_calls:
  assumes "vector_branch w p kw figsize a s = (Inr r, s')"
  shows "\<forall>d \<in> set (new_calls s s'). lib_fails w d = None"
  using assms
  unfolding vector_branch_def load_vector_def read_file_def to_crs_def subplots_def
    gdf_plot_def add_basemap_def set_xlim_def set_ylim_def
  by (auto simp: run_Inr fetch_tiles_Inr Let_def new_calls_def split: if_splits)

text \<open>
  C8. An error out of \<open>show_on_basemap\<close> is one of these: the \<open>FileNotFoundError\<close> of a
  missing path, raised before anything else; the \<open>ValueError\<close> of a path that exists and is
  neither a vector nor a raster file; the exception of the last library call made, exactly
  as the library raised it, every call before it having gone through; or the exception
  that \<open>path.exists()\<close> itself raised, exactly as it was raised, before anything else. And
  when the function returns, no library call it made has raised: nothing is caught on the
  way.
\<close>

theorem errors_raised_or_propagated:
  "(show_on_basemap w data_path layer_kwargs figsize add_attribution s = (Inl e, s') \<longrightarrow>
      (e = FileNotFoundError (''Could not find '' @ str_path (Path data_path) @ ''.'') \<and>
       \<not> fs_exists w (str_path (Path data_path)) \<and> s' = s) \<or>
      (e = ValueError
         (''Filetype '' @ [CHR 0x27] @ path_suffix (Path data_path) @ [CHR 0x27]
          @ '' not recognized. ''
          @ ''Supported vectors: .shp .geojson .json .gpkg .fgb; ''
          @ ''Supported rasters: .tif .tiff .geotiff'') \<and>
       fs_exists w (str_path (Path data_path)) \<and>
       \<not> is_vector (Path data_path) \<and> \<not> is_raster (Path data_path) \<and> s' = s) \<or>
      (\<exists>x. e = Raised_by_library x \<and> fs_exists w (str_path (Path data_path)) \<and>
           new_calls s s' \<noteq> [] \<and> lib_fails w (last (new_calls s s')) = Some x \<and>
           (\<forall>d \<in> set (butlast (new_calls s s')). lib_fails w d = None)) \<or>
      (\<exists>x. e = Raised_by_library x \<and> stat_fails w (str_path (Path data_path)) = Some x \<and>
           s' = s)) \<and>
   (show_on_basemap w data_path layer_kwargs figsize add_attribution s = (Inr r, s') \<longrightarrow>
      (\<forall>d \<in> set (new_calls s s'). lib_fails w d = None \<or> (\<exists>n. d = Close n)))"
proof (intro conjI impI)
  assume f: "show_on_basemap w data_path layer_kwargs figsize add_attribution s = (Inl e, s')"
  show "(e = FileNotFoundError (''Could not find '' @ str_path (Path data_path) @ ''.'') \<and>
       \<not> fs_exists w (str_path (Path data_path)) \<and> s' = s) \<or>
      (e = ValueError
         (''Filetype '' @ [CHR 0x27] @ path_suffix (Path data_path) @ [CHR 0x27]
          @ '' not recognized. ''
          @ ''Supported vectors: .shp .geojson .json .gpkg .fgb; ''
          @ ''Supported rasters: .tif .tiff .geotiff'') \<and>
       fs_exists w (str_path (Path data_path)) \<and>
       \<not> is_vector (Path data_path) \<and> \<not> is_raster (Path data_path) \<and> s' = s) \<or>
      (\<exists>x. e = Raised_by_library x \<and> fs_exists w (str_path (Path data_path)) \<and>
           new_calls s s' \<noteq> [] \<and> lib_fails w (last (new_calls s s')) = Some x \<and>
           (\<forall>d \<in> set (butlast (new_calls s s')). lib_fails w d = None)) \<or>
      (\<exists>x. e = Raised_by_library x \<and> stat_fails w (str_path (Path data_path)) = Some x \<and>
           s' = s)"
  proof (cases "stat_fails w (str_path (Path data_path))")
    case (Some x)
    from f show_on_basemap_stat_raises [OF Some, of layer_kwargs figsize add_attribution s]
    have "e = Raised_by_library x \<and> s' = s"
      by simp
    with Some show ?thesis
      by blast
  next
    case st: None
    show ?thesis
    proof (cases "on_disk w (str_path (Path data_path))")
      case False
      from f show_on_basemap_not_found [OF st False, of layer_kwargs figsize add_attribution s]
      have "e = FileNotFoundError (''Could not find '' @ str_path (Path data_path) @ ''.'') \<and>
          s' = s"
        by simp
      moreover from False have "\<not> fs_exists w (str_path (Path data_path))"
        by (simp add: fs_exists_def)
      ultimately show ?thesis
        by blast
    next
      case True
      with st have ex: "fs_exists w (str_path (Path data_path))"
        by (simp add: fs_exists_def)
      show ?thesis
      proof (cases "is_vector (Path data_path)")
        case True
        from vector_branch_Inl [OF f [unfolded show_on_basemap_vector [OF ex True]]] ex
        show ?thesis by blast
      next
        case nv: False
        show ?thesis
        proof (cases "is_raster (Path data_path)")
          case True
          from raster_branch_Inl [OF f [unfolded show_on_basemap_raster [OF ex True]]] ex
          show ?thesis by blast
        next
          case False
          from f show_on_basemap_unsupported [OF ex nv False, of layer_kwargs figsize
              add_attribution s]
          have "e = ValueError
             (''Filetype '' @ [CHR 0x27] @ path_suffix (Path data_path) @ [CHR 0x27]
              @ '' not recognized. ''
              @ ''Supported vectors: .shp .geojson .json .gpkg .fgb; ''
              @ ''Supported rasters: .tif .tiff .geotiff'') \<and> s' = s"
            by simp
          with ex nv False show ?thesis
            by blast
        qed
      qed
    qed
  qed
next
  assume f: "show_on_basemap w data_path layer_kwargs figsize add_attribution s = (Inr r, s')"
  have ex: "fs_exists w (str_path (Path data_path))"
    using f by (rule show_on_basemap_Inr_exists)
  show "\<forall>d \<in> set (new_calls s s'). lib_fails w d = None \<or> (\<exists>n. d = Close n)"
  proof (cases "is_vector (Path data_path)")
    case True
    from vector_branch_Inr_calls [OF f [unfolded show_on_basemap_vector [OF ex True]]]
    show ?thesis by blast
  next
    case nv: False
    show ?thesis
    proof (cases "is_raster (Path data_path)")
      case True
      from raster_branch_Inr_calls [OF f [unfolded show_on_basemap_raster [OF ex True]]]
      show ?thesis .
    next
      case False
      from f show_on_basemap_unsupported [OF ex nv False, of layer_kwargs figsize
          add_attribution s]
      show ?thesis
        by simp
    qed
  qed
qed

theorem errors_raised_or_propagated_witness:
  "show_on_basemap offline_world ''data/landcover.TIF'' None (10, 10) True initial_state =
     (Inl (Raised_by_library (Exc ''ConnectionError'' ''tile server unreachable'')),
      \<lparr>calls =
         [Rasterio_open ''data/landcover.TIF'', Subplots (10, 10),
          Show_raster ''data/landcover.TIF'' [],
          Transform_bounds (Some (EPSG 32633)) ''EPSG: 3857''
            (500000, 5500000, 510000, 5510000),
          Set_xlim 1669792 1685700, Set_ylim 6413525 6429500,
          Add_basemap (Some (Crs_text ''EPSG: 3857'')) Mapnik True,
          Fetch_tiles (Mapnik, Some (Crs_text ''EPSG: 3857''), (1669792, 1685700),
            (6413525, 6429500))],
       open_handles = [0], next_handle = 1, tile_cache = []\<rparr>) \<and>
   lib_fails offline_world
     (Fetch_tiles (Mapnik, Some (Crs_text ''EPSG: 3857''), (1669792, 1685700),
        (6413525, 6429500))) =
     Some (Exc ''ConnectionError'' ''tile server unreachable'') \<and>
   lib_fails offline_world (Add_basemap (Some (Crs_text ''EPSG: 3857'')) Mapnik True) = None \<and>
   lib_fails offline_world (Set_ylim 6413525 6429500) = None"
  using errors_raised_or_propagated [of offline_world "''data/landcover.TIF''" None "(10, 10)"
      True initial_state "Raised_by_library (Exc ''ConnectionError'' ''tile server unreachable'')"
      "\<lparr>calls =
         [Rasterio_open ''data/landcover.TIF'', Subplots (10, 10),
          Show_raster ''data/landcover.TIF'' [],
          Transform_bounds (Some (EPSG 32633)) ''EPSG: 3857''
            (500000, 5500000, 510000, 5510000),
          Set_xlim 1669792 1685700, Set_ylim 6413525 6429500,
          Add_basemap (Some (Crs_text ''EPSG: 3857'')) Mapnik True,
          Fetch_tiles (Mapnik, Some (Crs_text ''EPSG: 3857''), (1669792, 1685700),
            (6413525, 6429500))],
       open_handles = [0], next_handle = 1, tile_cache = []\<rparr>"]
    offline_raster_run
  by (simp add: new_calls_def initial_state_def)

section \<open>Dispatch on the extension\<close>

text \<open>
  The extensions in the two sets are in lower case; the message of the unsupported file
  holds the words \<open>not recognized\<close>, the quoted suffix and every supported extension; and
  the suffix of a final component \<open>stem.ext\<close> is \<open>.ext\<close>.
\<close>

lemma sublist_in_tail: "sublist e t \<Longrightarrow> sublist e (p @ t)"
proof -
  assume "sublist e t"
  then obtain ps ss where "t = ps @ e @ ss" by (auto simp: sublist_def)
  then have "p @ t = (p @ ps) @ e @ ss" by simp
  then show ?thesis unfolding sublist_def by blast
qed

lemma lower_exts:
  "map lower vector_exts = vector_exts" "map lower raster_exts = raster_exts"
  by (simp_all add: vector_exts_def raster_exts_def lower_def lower_char_def is_upper_char_def)

lemma unsupported_message:
  "sublist ''not recognized''
     (''Filetype '' @ [CHR 0x27] @ sfx @ [CHR 0x27] @ '' not recognized. ''
      @ ''Supported vectors: .shp .geojson .json .gpkg .fgb; ''
      @ ''Supported rasters: .tif .tiff .geotiff'')"
  "sublist ([CHR 0x27] @ sfx @ [CHR 0x27])
     (''Filetype '' @ [CHR 0x27] @ sfx @ [CHR 0x27] @ '' not recognized. ''
      @ ''Supported vectors: .shp .geojson .json .gpkg .fgb; ''
      @ ''Supported rasters: .tif .tiff .geotiff'')"
  "\<forall>e \<in> set (vector_exts @ raster_exts). sublist e
     (''Filetype '' @ [CHR 0x27] @ sfx @ [CHR 0x27] @ '' not recognized. ''
      @ ''Supported vectors: .shp .geojson .json .gpkg .fgb; ''
      @ ''Supported rasters: .tif .tiff .geotiff'')"
proof -
  let ?t = "'' not recognized. '' @ ''Supported vectors: .shp .geojson .json .gpkg .fgb; ''
      @ ''Supported rasters: .tif .tiff .geotiff''"
  have m: "''Filetype '' @ [CHR 0x27] @ sfx @ [CHR 0x27] @ '' not recognized. ''
      @ ''Supported vectors: .shp .geojson .json .gpkg .fgb; ''
      @ ''Supported rasters: .tif .tiff .geotiff'' = (''Filetype '' @ [CHR 0x27] @ sfx @ [CHR 0x27]) @ ?t"
    by simp
  have "sublist ''not recognized'' ?t"
    by (simp add: sublist_Cons_right)
  then show "sublist ''not recognized''
     (''Filetype '' @ [CHR 0x27] @ sfx @ [CHR 0x27] @ '' not recognized. ''
      @ ''Supported vectors: .shp .geojson .json .gpkg .fgb; ''
      @ ''Supported rasters: .tif .tiff .geotiff'')"
    unfolding m by (rule sublist_in_tail)
  have "(''Filetype '' @ [CHR 0x27] @ sfx @ [CHR 0x27]) @ ?t =
        ''Filetype '' @ ([CHR 0x27] @ sfx @ [CHR 0x27]) @ ?t"
    by simp
  then show "sublist ([CHR 0x27] @ sfx @ [CHR 0x27])
     (''Filetype '' @ [CHR 0x27] @ sfx @ [CHR 0x27] @ '' not recognized. ''
      @ ''Supported vectors: .shp .geojson .json .gpkg .fgb; ''
      @ ''Supported rasters: .tif .tiff .geotiff'')"
    unfolding m by (metis sublist_appendI)
  have "\<forall>e \<in> set (vector_exts @ raster_exts). sublist e ?t"
    by (simp add: vector_exts_def raster_exts_def sublist_Cons_right)
  then show "\<forall>e \<in> set (vector_exts @ raster_exts). sublist e
     (''Filetype '' @ [CHR 0x27] @ sfx @ [CHR 0x27] @ '' not recognized. ''
      @ ''Supported vectors: .shp .geojson .json .gpkg .fgb; ''
      @ ''Supported rasters: .tif .tiff .geotiff'')"
    unfolding m by (blast intro: sublist_in_tail)
qed

lemma suffix_of_final:
  assumes "stem \<noteq> []" "ext \<noteq> []" "CHR ''.'' \<notin> set ext" "CHR ''/'' \<notin> set stem"
    "CHR ''/'' \<notin> set ext"
  shows "path_suffix (Path (dir @ CHR ''/'' # stem @ CHR ''.'' # ext)) = CHR ''.'' # ext"
    and "path_suffix (Path (stem @ CHR ''.'' # ext)) = CHR ''.'' # ext"
proof -
  let ?base = "stem @ CHR ''.'' # ext"
  have "?base \<noteq> ''.''"
  proof
    assume "?base = ''.''"
    then have "length ?base = 1" by simp
    with assms(1) show False by simp
  qed
  then have b: "CHR ''/'' \<notin> set ?base" "?base \<noteq> []" "?base \<noteq> ''.''"
    using assms by auto
  have s: "(let name = ?base; i = rfind name CHR ''.'' in
      if 0 < i \<and> i < int (length name) - 1 then drop (nat i) name else []) = CHR ''.'' # ext"
    using assms by (simp add: rfind_last Let_def)
  show "path_suffix (Path (dir @ CHR ''/'' # stem @ CHR ''.'' # ext)) = CHR ''.'' # ext"
    unfolding path_suffix_def path_name_final(1) [OF b] by (rule s)
  show "path_suffix (Path (stem @ CHR ''.'' # ext)) = CHR ''.'' # ext"
    unfolding path_suffix_def path_name_final(2) [OF b] by (rule s)
qed


text \<open>
  C1. A path whose suffix equals, letter case ignored, one of \<open>.shp\<close>, \<open>.geojson\<close>,
  \<open>.json\<close>, \<open>.gpkg\<close>, \<open>.fgb\<close> is classified as vector, and \<open>show_on_basemap\<close> on it
  (when it exists) is the vector branch; for \<open>.tif\<close>, \<open>.tiff\<close>, \<open>.geotiff\<close> it is
  classified as raster and not as vector, and the function is the raster branch. For a
  path that exists and has any other suffix the function raises \<open>ValueError\<close> with a
  message that holds \<open>not recognized\<close>, the suffix in quotes, and each of the eight
  supported extensions; the state is left as it was.
\<close>

theorem dispatch_by_extension:
  "((\<exists>e \<in> set [''.shp'', ''.geojson'', ''.json'', ''.gpkg'', ''.fgb''].
       lower (path_suffix (Path data_path)) = lower e) \<longrightarrow>
      is_vector (Path data_path) \<and>
      (fs_exists w (str_path (Path data_path)) \<longrightarrow>
         show_on_basemap w data_path layer_kwargs figsize add_attribution =
         vector_branch w (Path data_path)
           (case layer_kwargs of None \<Rightarrow> [] | Some kw \<Rightarrow> kw) figsize add_attribution)) \<and>
   ((\<exists>e \<in> set [''.tif'', ''.tiff'', ''.geotiff''].
       lower (path_suffix (Path data_path)) = lower e) \<longrightarrow>
      is_raster (Path data_path) \<and> \<not> is_vector (Path data_path) \<and>
      (fs_exists w (str_path (Path data_path)) \<longrightarrow>
         show_on_basemap w data_path layer_kwargs figsize add_attribution =
         raster_branch w (Path data_path)
           (case layer_kwargs of None \<Rightarrow> [] | Some kw \<Rightarrow> kw) figsize add_attribution)) \<and>
   (fs_exists w (str_path (Path data_path)) \<and>
    \<not> (\<exists>e \<in> set [''.shp'', ''.geojson'', ''.json'', ''.gpkg'', ''.fgb'', ''.tif'', ''.tiff'',
                   ''.geotiff''].
          lower (path_suffix (Path data_path)) = lower e) \<longrightarrow>
      (\<exists>msg. show_on_basemap w data_path layer_kwargs figsize add_attribution s =
               (Inl (ValueError msg), s) \<and>
             sublist ''not recognized'' msg \<and>
             sublist ([CHR 0x27] @ path_suffix (Path data_path) @ [CHR 0x27]) msg \<and>
             (\<forall>e \<in> set [''.shp'', ''.geojson'', ''.json'', ''.gpkg'', ''.fgb'', ''.tif'',
                          ''.tiff'', ''.geotiff''].
                sublist e msg)))"
proof (intro conjI impI)
  assume "\<exists>e \<in> set [''.shp'', ''.geojson'', ''.json'', ''.gpkg'', ''.fgb''].
       lower (path_suffix (Path data_path)) = lower e"
  then have "lower (path_suffix (Path data_path)) \<in> set (map lower vector_exts)"
    by (auto simp: vector_exts_def)
  then show v: "is_vector (Path data_path)"
    by (simp only: lower_exts is_vector_def)
  assume "fs_exists w (str_path (Path data_path))"
  then show "show_on_basemap w data_path layer_kwargs figsize add_attribution =
         vector_branch w (Path data_path)
           (case layer_kwargs of None \<Rightarrow> [] | Some kw \<Rightarrow> kw) figsize add_attribution"
    using v by (rule show_on_basemap_vector)
next
  assume "\<exists>e \<in> set [''.tif'', ''.tiff'', ''.geotiff''].
       lower (path_suffix (Path data_path)) = lower e"
  then have "lower (path_suffix (Path data_path)) \<in> set (map lower raster_exts)"
    by (auto simp: raster_exts_def)
  then show r: "is_raster (Path data_path)"
    by (simp only: lower_exts is_raster_def)
  then show "\<not> is_vector (Path data_path)"
    by (rule raster_not_vector)
  assume "fs_exists w (str_path (Path data_path))"
  then show "show_on_basemap w data_path layer_kwargs figsize add_attribution =
         raster_branch w (Path data_path)
           (case layer_kwargs of None \<Rightarrow> [] | Some kw \<Rightarrow> kw) figsize add_attribution"
    using r by (rule show_on_basemap_raster)
next
  assume a: "fs_exists w (str_path (Path data_path)) \<and>
    \<not> (\<exists>e \<in> set [''.shp'', ''.geojson'', ''.json'', ''.gpkg'', ''.fgb'', ''.tif'', ''.tiff'',
                   ''.geotiff''].
          lower (path_suffix (Path data_path)) = lower e)"
  then have "lower (path_suffix (Path data_path)) \<notin> set (map lower (vector_exts @ raster_exts))"
    by (auto simp: vector_exts_def raster_exts_def)
  then have n: "\<not> is_vector (Path data_path)" "\<not> is_raster (Path data_path)"
    by (simp_all add: lower_exts is_vector_def is_raster_def)
  let ?msg = "''Filetype '' @ [CHR 0x27] @ path_suffix (Path data_path) @ [CHR 0x27]
      @ '' not recognized. ''
      @ ''Supported vectors: .shp .geojson .json .gpkg .fgb; ''
      @ ''Supported rasters: .tif .tiff .geotiff''"
  have "show_on_basemap w data_path layer_kwargs figsize add_attribution s =
          (Inl (ValueError ?msg), s)"
    using a n by (simp add: show_on_basemap_unsupported)
  moreover have "sublist ''not recognized'' ?msg"
    by (rule unsupported_message(1))
  moreover have "sublist ([CHR 0x27] @ path_suffix (Path data_path) @ [CHR 0x27]) ?msg"
    by (rule unsupported_message(2))
  moreover have "\<forall>e \<in> set [''.shp'', ''.geojson'', ''.json'', ''.gpkg'', ''.fgb'', ''.tif'',
                          ''.tiff'', ''.geotiff'']. sublist e ?msg"
    using unsupported_message(3) [of "path_suffix (Path data_path)"]
    by (simp add: vector_exts_def raster_exts_def)
  ultimately show "\<exists>msg. show_on_basemap w data_path layer_kwargs figsize add_attribution s =
               (Inl (ValueError msg), s) \<and>
             sublist ''not recognized'' msg \<and>
             sublist ([CHR 0x27] @ path_suffix (Path data_path) @ [CHR 0x27]) msg \<and>
             (\<forall>e \<in> set [''.shp'', ''.geojson'', ''.json'', ''.gpkg'', ''.fgb'', ''.tif'',
                          ''.tiff'', ''.geotiff''].
                sublist e msg)"
    by blast
qed


theorem dispatch_by_extension_witness:
  "(\<exists>e \<in> set [''.shp'', ''.geojson'', ''.json'', ''.gpkg'', ''.fgb''].
      lower (path_suffix (Path ''data/roads.GeoJSON'')) = lower e) \<and>
   is_vector (Path ''data/roads.GeoJSON'') \<and>
   (\<exists>e \<in> set [''.tif'', ''.tiff'', ''.geotiff''].
      lower (path_suffix (Path ''data/landcover.TIF'')) = lower e) \<and>
   is_raster (Path ''data/landcover.TIF'') \<and>
   fs_exists sample_world (str_path (Path ''data/notes.xyz'')) \<and>
   path_suffix (Path ''data/notes.xyz'') = ''.xyz'' \<and>
   (\<exists>msg. show_on_basemap sample_world ''data/notes.xyz'' None (10, 10) True initial_state =
            (Inl (ValueError msg), initial_state) \<and>
          sublist ''not recognized'' msg \<and>
          sublist ([CHR 0x27] @ ''.xyz'' @ [CHR 0x27]) msg \<and>
          sublist ''.geotiff'' msg)"
proof -
  have v: "\<exists>e \<in> set [''.shp'', ''.geojson'', ''.json'', ''.gpkg'', ''.fgb''].
      lower (path_suffix (Path ''data/roads.GeoJSON'')) = lower e"
    by (simp add: path_eval Let_def)
  have r: "\<exists>e \<in> set [''.tif'', ''.tiff'', ''.geotiff''].
      lower (path_suffix (Path ''data/landcover.TIF'')) = lower e"
    by (simp add: path_eval Let_def)
  have x: "path_suffix (Path ''data/notes.xyz'') = ''.xyz''"
    by (simp add: path_eval Let_def)
  have ex: "fs_exists sample_world (str_path (Path ''data/notes.xyz''))"
    by (simp add: Path_def splitroot_def str_path_def world_eval)
  have n: "\<not> (\<exists>e \<in> set [''.shp'', ''.geojson'', ''.json'', ''.gpkg'', ''.fgb'', ''.tif'',
                  ''.tiff'', ''.geotiff''].
          lower (path_suffix (Path ''data/notes.xyz'')) = lower e)"
    by (simp add: x lower_def lower_char_def is_upper_char_def)
  note dv = dispatch_by_extension [of "''data/roads.GeoJSON''" sample_world None "(10, 10)"
      True initial_state]
  note dr = dispatch_by_extension [of "''data/landcover.TIF''" sample_world None "(10, 10)"
      True initial_state]
  note dx = dispatch_by_extension [of "''data/notes.xyz''" sample_world None "(10, 10)"
      True initial_state]
  from dv [THEN conjunct1, THEN mp, OF v]
  have 1: "is_vector (Path ''data/roads.GeoJSON'')" ..
  from dr [THEN conjunct2, THEN conjunct1, THEN mp, OF r]
  have 2: "is_raster (Path ''data/landcover.TIF'')" ..
  from dx [THEN conjunct2, THEN conjunct2, THEN mp, OF conjI [OF ex n]]
  obtain msg where m:
    "show_on_basemap sample_world ''data/notes.xyz'' None (10, 10) True initial_state =
       (Inl (ValueError msg), initial_state)"
    "sublist ''not recognized'' msg"
    "sublist ([CHR 0x27] @ path_suffix (Path ''data/notes.xyz'') @ [CHR 0x27]) msg"
    "\<forall>e \<in> set [''.shp'', ''.geojson'', ''.json'', ''.gpkg'', ''.fgb'', ''.tif'',
                 ''.tiff'', ''.geotiff'']. sublist e msg"
    by blast
  from m(4) have g: "sublist ''.geotiff'' msg" by simp
  from m(3) have q: "sublist ([CHR 0x27] @ ''.xyz'' @ [CHR 0x27]) msg"
    unfolding x .
  from m(1) m(2) q g
  have 3: "\<exists>msg. show_on_basemap sample_world ''data/notes.xyz'' None (10, 10) True initial_state =
            (Inl (ValueError msg), initial_state) \<and>
          sublist ''not recognized'' msg \<and>
          sublist ([CHR 0x27] @ ''.xyz'' @ [CHR 0x27]) msg \<and>
          sublist ''.geotiff'' msg"
    by blast
  show ?thesis
    by (intro conjI) (rule v 1 r 2 ex x 3)+
qed

text \<open>
  C10. The classification is a function of the lower-cased suffix alone. The suffix is
  taken from the last dot of the final component, whatever text stands before that dot, so
  a name ending in \<open>.tar.json\<close> is a vector file. The two extension sets are disjoint, so
  no path is classified both ways. A path that exists and whose final component has no
  suffix gets the error of the unsupported file, with an empty suffix in the message.
\<close>

theorem classification_by_final_suffix:
  "(lower (path_suffix p) = lower (path_suffix q) \<longrightarrow>
      is_vector p = is_vector q \<and> is_raster p = is_raster q) \<and>
   (stem \<noteq> [] \<and> ext \<noteq> [] \<and> CHR ''.'' \<notin> set ext \<and> CHR ''/'' \<notin> set (stem @ ext) \<longrightarrow>
      path_suffix (Path (dir @ ''/'' @ stem @ ''.'' @ ext)) = ''.'' @ ext \<and>
      path_suffix (Path (stem @ ''.'' @ ext)) = ''.'' @ ext) \<and>
   (CHR ''/'' \<notin> set stem \<longrightarrow>
      is_vector (Path (dir @ ''/'' @ stem @ ''.tar.json'')) \<and>
      is_vector (Path (stem @ ''.tar.json''))) \<and>
   set vector_exts \<inter> set raster_exts = {} \<and>
   \<not> (is_vector p \<and> is_raster p) \<and>
   (fs_exists w (str_path (Path data_path)) \<and> path_suffix (Path data_path) = [] \<longrightarrow>
      show_on_basemap w data_path layer_kwargs figsize add_attribution s =
        (Inl (ValueError
           (''Filetype '' @ [CHR 0x27] @ [CHR 0x27] @ '' not recognized. ''
            @ ''Supported vectors: .shp .geojson .json .gpkg .fgb; ''
            @ ''Supported rasters: .tif .tiff .geotiff'')), s))"
proof (intro conjI impI)
  assume "lower (path_suffix p) = lower (path_suffix q)"
  then show "is_vector p = is_vector q" "is_raster p = is_raster q"
    by (simp_all add: is_vector_def is_raster_def)
next
  assume a: "stem \<noteq> [] \<and> ext \<noteq> [] \<and> CHR ''.'' \<notin> set ext \<and> CHR ''/'' \<notin> set (stem @ ext)"
  then show "path_suffix (Path (dir @ ''/'' @ stem @ ''.'' @ ext)) = ''.'' @ ext"
    using suffix_of_final(1) [of stem ext dir] by simp
  from a show "path_suffix (Path (stem @ ''.'' @ ext)) = ''.'' @ ext"
    using suffix_of_final(2) [of stem ext] by simp
next
  assume a: "CHR ''/'' \<notin> set stem"
  have "path_suffix (Path (dir @ CHR ''/'' # (stem @ ''.tar'') @ CHR ''.'' # ''json'')) = ''.json''"
    using a by (intro suffix_of_final(1)) auto
  then show "is_vector (Path (dir @ ''/'' @ stem @ ''.tar.json''))"
    by (simp add: is_vector_def vector_exts_def lower_def lower_char_def is_upper_char_def)
  have "path_suffix (Path ((stem @ ''.tar'') @ CHR ''.'' # ''json'')) = ''.json''"
    using a by (intro suffix_of_final(2)) auto
  then show "is_vector (Path (stem @ ''.tar.json''))"
    by (simp add: is_vector_def vector_exts_def lower_def lower_char_def is_upper_char_def)
next
  show "set vector_exts \<inter> set raster_exts = {}"
    by (rule disjoint_exts)
  show "\<not> (is_vector p \<and> is_raster p)"
    using raster_not_vector by blast
next
  assume a: "fs_exists w (str_path (Path data_path)) \<and> path_suffix (Path data_path) = []"
  then have "\<not> is_vector (Path data_path)" "\<not> is_raster (Path data_path)"
    by (simp_all add: is_vector_def is_raster_def vector_exts_def raster_exts_def lower_def)
  with a show "show_on_basemap w data_path layer_kwargs figsize add_attribution s =
        (Inl (ValueError
           (''Filetype '' @ [CHR 0x27] @ [CHR 0x27] @ '' not recognized. ''
            @ ''Supported vectors: .shp .geojson .json .gpkg .fgb; ''
            @ ''Supported rasters: .tif .tiff .geotiff'')), s)"
    by (simp add: show_on_basemap_unsupported)
qed

theorem classification_by_final_suffix_witness:
  "lower (path_suffix (Path ''a/b.JSON'')) = lower (path_suffix (Path ''c.d.json'')) \<and>
   is_vector (Path ''a/b.JSON'') \<and> is_vector (Path ''c.d.json'') \<and>
   \<not> is_raster (Path ''a/b.JSON'') \<and>
   path_suffix (Path (''out/v2'' @ ''/'' @ ''scene.2024'' @ ''.'' @ ''tiff'')) = ''.tiff'' \<and>
   is_vector (Path (''backups'' @ ''/'' @ ''archive'' @ ''.tar.json'')) \<and>
   fs_exists sample_world (str_path (Path ''data/README'')) \<and>
   path_suffix (Path ''data/README'') = [] \<and>
   path_suffix (Path ''data/.json'') = [] \<and>
   show_on_basemap sample_world ''data/README'' None (10, 10) True initial_state =
     (Inl (ValueError
        (''Filetype '' @ [CHR 0x27] @ [CHR 0x27] @ '' not recognized. ''
         @ ''Supported vectors: .shp .geojson .json .gpkg .fgb; ''
         @ ''Supported rasters: .tif .tiff .geotiff'')), initial_state)"
proof -
  have e: "lower (path_suffix (Path ''a/b.JSON'')) = lower (path_suffix (Path ''c.d.json''))"
    by (simp add: path_eval Let_def)
  have v: "is_vector (Path ''c.d.json'')"
    by (simp add: path_eval Let_def)
  have s: "''scene.2024'' \<noteq> [] \<and> ''tiff'' \<noteq> [] \<and> CHR ''.'' \<notin> set ''tiff'' \<and>
           CHR ''/'' \<notin> set (''scene.2024'' @ ''tiff'')"
    by simp
  have t: "CHR ''/'' \<notin> set ''archive''"
    by simp
  have ex: "fs_exists sample_world (str_path (Path ''data/README''))"
    by (simp add: Path_def splitroot_def str_path_def world_eval)
  have n: "path_suffix (Path ''data/README'') = []"
    by (simp add: path_eval Let_def)
  have h: "path_suffix (Path ''data/.json'') = []"
    by (simp add: path_eval Let_def)
  note c = classification_by_final_suffix [of "Path ''a/b.JSON''" "Path ''c.d.json''"
      "''scene.2024''" "''tiff''" "''out/v2''" sample_world "''data/README''" None "(10, 10)"
      True initial_state]
  note c' = classification_by_final_suffix [of "Path ''a/b.JSON''" "Path ''c.d.json''"
      "''archive''" "''tiff''" "''backups''" sample_world "''data/README''" None "(10, 10)"
      True initial_state]
  from c [THEN conjunct1, THEN mp, OF e] v
  have 1: "is_vector (Path ''a/b.JSON'')" by simp
  from c [THEN conjunct2, THEN conjunct2, THEN conjunct2, THEN conjunct2, THEN conjunct1] 1
  have 2: "\<not> is_raster (Path ''a/b.JSON'')" by simp
  from c [THEN conjunct2, THEN conjunct1, THEN mp, OF s]
  have 3: "path_suffix (Path (''out/v2'' @ ''/'' @ ''scene.2024'' @ ''.'' @ ''tiff'')) = ''.tiff''"
    by simp
  from c' [THEN conjunct2, THEN conjunct2, THEN conjunct1, THEN mp, OF t]
  have 4: "is_vector (Path (''backups'' @ ''/'' @ ''archive'' @ ''.tar.json''))"
    by (rule conjunct1)
  note 5 = c [THEN conjunct2, THEN conjunct2, THEN conjunct2, THEN conjunct2, THEN conjunct2,
      THEN mp, OF conjI [OF ex n]]
  show ?thesis
    by (intro conjI) (rule e 1 v 2 3 4 ex n h 5)+
qed

end
